theory Spec2Isabelle
  imports Main "HOL-Library.Multiset"
begin

section \<open>Blob references, errors and time\<close>

text \<open>
  A \<open>blob.Ref\<close> is a content hash; its zero value is the invalid reference.
  Modelled from the spec: "BlobRef: opaque content-hash identifier; immutable; equality
  is by hash", "BlobRefs are immutable and collision-free identifiers". The package
  \<open>camlistore.org/pkg/blob\<close> is not among the sources; the model writes a digest as the
  bytes it addresses, which makes the hash collision-free by construction.
\<close>

datatype blobref = ZeroRef | Ref string

definition Valid :: "blobref \<Rightarrow> bool" where
  "Valid r = (r \<noteq> ZeroRef)"

definition SHA1FromString :: "string \<Rightarrow> blobref" where
  "SHA1FromString s = Ref s"

definition String :: "blobref \<Rightarrow> string" where
  "String r = (case r of ZeroRef \<Rightarrow> ''<invalid-blob.Ref>'' | Ref d \<Rightarrow> ''sha1-'' @ d)"

definition Parse :: "string \<Rightarrow> blobref option" where
  "Parse s = (if take 5 s = ''sha1-'' then Some (Ref (drop 5 s)) else None)"

text \<open>
  Go errors are values carrying a message; a panic is an error that unwinds to the
  request boundary (\<open>httputil.RecoverJSON\<close>). \<open>ErrSyntax\<close> and \<open>ErrRange\<close> are the two
  errors of \<open>strconv\<close>.
\<close>

datatype error =
    Error string
  | InvalidParameterError string
  | ErrSyntax
  | ErrRange
  | Panic error

text \<open>Times are seconds on a clock; \<open>0\<close> is the zero \<open>time.Time\<close>.\<close>

type_synonym time = nat

definition IsZero :: "time \<Rightarrow> bool" where
  "IsZero t = (t = 0)"


section \<open>Parameter sanitization (handler.go)\<close>

definition maxResults :: int where "maxResults = 1000"
definition defaultNumResults :: int where "defaultNumResults = 50"

definition minThumbSize :: int where "minThumbSize = 25"
definition defThumbSize :: int where "defThumbSize = 50"
definition maxThumbSize :: int where "maxThumbSize = 800"

text \<open>
  \<open>sanitizeNumResults\<close>. Go's \<open>int\<close> is a machine integer; the function only compares
  and returns its argument, so nothing can overflow and \<open>int\<close> is exact.
\<close>

definition sanitizeNumResults :: "int \<Rightarrow> int" where
  "sanitizeNumResults n = (if n \<le> 0 \<or> n > maxResults then defaultNumResults else n)"

subsection \<open>\<open>strconv.Atoi\<close>\<close>

text \<open>
  \<open>strconv.Atoi s\<close> is \<open>ParseInt(s, 10, 0)\<close> of the Go library: an optional sign, then
  decimal digits read left to right into an unsigned 64-bit accumulator. A syntax error
  gives \<open>0\<close>; a value out of range gives the nearest bound of \<open>int64\<close> together with
  \<open>ErrRange\<close>. The result is the pair Go returns: the number and the error (or none).
\<close>

definition digitVal :: "char \<Rightarrow> int option" where
  "digitVal c = (let n = (of_char c :: int) in
     if 48 \<le> n \<and> n \<le> 57 then Some (n - 48) else None)"

fun parseUint :: "string \<Rightarrow> int \<Rightarrow> error + int" where
  "parseUint [] n = Inr n"
| "parseUint (c # cs) n =
     (case digitVal c of
        None \<Rightarrow> Inl ErrSyntax
      | Some v \<Rightarrow> if 2 ^ 64 \<le> n * 10 + v then Inl ErrRange else parseUint cs (n * 10 + v))"

definition Atoi :: "string \<Rightarrow> int \<times> error option" where
  "Atoi s =
     (if s = [] then (0, Some ErrSyntax)
      else
        let neg = (hd s = CHR ''-'');
            s1 = (if hd s = CHR ''+'' \<or> hd s = CHR ''-'' then tl s else s)
        in if s1 = [] then (0, Some ErrSyntax)
           else
             (case parseUint s1 0 of
                Inl e \<Rightarrow>
                  if e = ErrRange
                  then (if neg then (- (2 ^ 63), Some ErrRange) else (2 ^ 63 - 1, Some ErrRange))
                  else (0, Some e)
              | Inr un \<Rightarrow>
                  if \<not> neg \<and> 2 ^ 63 \<le> un then (2 ^ 63 - 1, Some ErrRange)
                  else if neg \<and> 2 ^ 63 < un then (- (2 ^ 63), Some ErrRange)
                  else (if neg then - un else un, None)))"

subsection \<open>HTTP requests\<close>

text \<open>
  What the handlers read of an \<open>*http.Request\<close>: the method, the path suffix that
  \<open>httputil.PathSuffix\<close> extracts, the form values (\<open>FormValue\<close> is the empty string for
  an absent key) and the body.
\<close>

record Request =
  Method :: string
  PathSuffix :: string
  Form :: "string \<Rightarrow> string"
  Body :: string

definition FormValue :: "Request \<Rightarrow> string \<Rightarrow> string" where
  "FormValue req k = Form req k"

definition thumbnailSizeStr :: "string \<Rightarrow> int" where
  "thumbnailSizeStr s =
     (if s = [] then 0
      else let i = fst (Atoi s) in
        if i \<ge> minThumbSize \<and> i \<le> maxThumbSize then i else defThumbSize)"

definition thumbnailSize :: "Request \<Rightarrow> int" where
  "thumbnailSize r = thumbnailSizeStr (FormValue r ''thumbnails'')"

subsection \<open>\<open>RecentRequest\<close>\<close>

record RecentRequest =
  rr_N :: int
  rr_Before :: time
  rr_ThumbnailSize :: int

text \<open>
  \<open>RecentRequest.fromHTTP\<close>. The error of \<open>Atoi\<close> is dropped, as in the source.
  \<open>types.ParseTime3339OrZero\<close> is not among the sources and is a parameter.
\<close>

definition RecentRequest_fromHTTP :: "(string \<Rightarrow> time) \<Rightarrow> Request \<Rightarrow> RecentRequest" where
  "RecentRequest_fromHTTP ParseTime3339OrZero req =
     (let beforeStr = FormValue req ''before'' in
      \<lparr> rr_N = fst (Atoi (FormValue req ''n'')),
        rr_Before = (if beforeStr \<noteq> [] then ParseTime3339OrZero beforeStr else 0),
        rr_ThumbnailSize = thumbnailSize req \<rparr>)"

definition RecentRequest_n :: "RecentRequest \<Rightarrow> int" where
  "RecentRequest_n r = sanitizeNumResults (rr_N r)"

definition RecentRequest_thumbnailSize :: "RecentRequest \<Rightarrow> int" where
  "RecentRequest_thumbnailSize r =
     (let v = rr_ThumbnailSize r in
      if v = 0 then 0
      else if v < minThumbSize \<or> v > maxThumbSize then defThumbSize
      else v)"

subsection \<open>\<open>WithAttrRequest\<close>\<close>

record WithAttrRequest =
  wr_N :: int
  wr_Signer :: blobref
  wr_Attr :: string
  wr_Value :: string
  wr_Fuzzy :: bool
  wr_ThumbnailSize :: int

definition WithAttrRequest_n :: "WithAttrRequest \<Rightarrow> int" where
  "WithAttrRequest_n r = sanitizeNumResults (wr_N r)"

definition ParseOrZero :: "string \<Rightarrow> blobref" where
  "ParseOrZero s = (case Parse s of Some r \<Rightarrow> r | None \<Rightarrow> ZeroRef)"

definition ToLower :: "string \<Rightarrow> string" where
  "ToLower s = map (\<lambda>c. let n = (of_char c :: nat) in
                          if 65 \<le> n \<and> n \<le> 90 then char_of (n + 32) else c) s"

text \<open>
  \<open>WithAttrRequest.fromHTTP\<close>, on a zero-valued request as \<open>servePermanodesWithAttr\<close>
  calls it. It panics with \<open>InvalidParameterError "max"\<close> when \<open>max\<close> is present and not
  a number; otherwise \<open>N\<close> is sanitized here, at the HTTP boundary.
\<close>

definition WithAttrRequest_fromHTTP :: "Request \<Rightarrow> error + WithAttrRequest" where
  "WithAttrRequest_fromHTTP req =
     (let fuzzy = FormValue req ''fuzzy'';
          lowered = ToLower fuzzy;
          fuzzyMatch = (fuzzy \<noteq> [] \<and> (lowered = ''true'' \<or> lowered = ''t''));
          attr = FormValue req ''attr'';
          fuzzyMatch' = (if attr = [] then True else fuzzyMatch);
          max = FormValue req ''max''
      in if max \<noteq> [] \<and> snd (Atoi max) \<noteq> None
         then Inl (Panic (InvalidParameterError ''max''))
         else
           let r = \<lparr> wr_N = (if max \<noteq> [] then fst (Atoi max) else 0),
                     wr_Signer = ParseOrZero (FormValue req ''signer''),
                     wr_Attr = attr,
                     wr_Value = FormValue req ''value'',
                     wr_Fuzzy = fuzzyMatch',
                     wr_ThumbnailSize = thumbnailSize req \<rparr>
           in Inr (r\<lparr> wr_N := WithAttrRequest_n r \<rparr>))"

definition WithAttrRequest_thumbnailSize :: "WithAttrRequest \<Rightarrow> int" where
  "WithAttrRequest_thumbnailSize r =
     (let v = wr_ThumbnailSize r in
      if v = 0 then 0
      else if v < minThumbSize then minThumbSize
      else if v > maxThumbSize then maxThumbSize
      else v)"


section \<open>Request dispatch (\<open>ServeHTTP\<close>)\<close>

datatype endpoint =
    serveWebSocket | serveRecentPermanodes | servePermanodesWithAttr | serveDescribe
  | serveClaims | serveFiles | serveGetNamed | serveSignerAttrValue | serveSignerPaths
  | serveEdgesTo | serveQuery | serveSetNamed

definition getHandler :: "(string \<times> endpoint) list" where
  "getHandler =
     [(''ws'', serveWebSocket),
      (''recent'', serveRecentPermanodes),
      (''permanodeattr'', servePermanodesWithAttr),
      (''describe'', serveDescribe),
      (''claims'', serveClaims),
      (''files'', serveFiles),
      (''getnamed'', serveGetNamed),
      (''signerattrvalue'', serveSignerAttrValue),
      (''signerpaths'', serveSignerPaths),
      (''edgesto'', serveEdgesTo)]"

definition postHandler :: "(string \<times> endpoint) list" where
  "postHandler =
     [(''describe'', serveDescribe),
      (''query'', serveQuery),
      (''setnamed'', serveSetNamed)]"

definition TrimPrefix :: "string \<Rightarrow> string \<Rightarrow> string" where
  "TrimPrefix s p = (if take (length p) s = p then drop (length p) s else s)"

text \<open>
  What \<open>ServeHTTP\<close> does with a request: it hands it to an endpoint function, or it
  answers itself through \<open>httputil.ReturnJSON\<close> with a JSON object (a list of fields).
\<close>

datatype Response = Served endpoint | ReturnJSON "(string \<times> string) list"

text \<open>
  \<open>httputil.IsGet\<close> is not among the sources; it is the parameter \<open>IsGet\<close>. A nil map
  in Go has no entries.
\<close>

definition ServeHTTP :: "(Request \<Rightarrow> bool) \<Rightarrow> Request \<Rightarrow> Response" where
  "ServeHTTP IsGet req =
     (let suffix = PathSuffix req;
          handlers = (if IsGet req then getHandler
                      else if Method req = ''POST'' then postHandler
                      else [])
      in case map_of handlers (TrimPrefix suffix ''camli/search/'') of
           Some handler \<Rightarrow> Served handler
         | None \<Rightarrow> ReturnJSON [(''error'', ''Unsupported search path or method''),
                                (''errorType'', ''input'')])"


section \<open>The index, as the handler consumes it\<close>

text \<open>
  The records of \<open>camlistore.org/pkg/types/camtypes\<close> that the handler reads.
\<close>

record Claim =
  cl_BlobRef :: blobref
  cl_Signer :: blobref
  cl_Permanode :: blobref
  cl_Date :: time
  cl_Type :: string
  cl_Attr :: string
  cl_Value :: string

record Edge =
  e_From :: blobref
  e_FromType :: string
  e_To :: blobref

record RecentPermanode =
  rp_Permanode :: blobref
  rp_Signer :: blobref
  rp_LastModTime :: time

record PermanodeByAttrRequest =
  pa_Attribute :: string
  pa_Query :: string
  pa_Signer :: blobref
  pa_FuzzyMatch :: bool
  pa_MaxResults :: int

text \<open>
  Modelled from the spec: the index storage engine (\<open>camlistore.org/pkg/index\<close>) is not
  among the sources. The model keeps what the spec says the index holds: the claims
  ("Claims are append-only"), the type of every indexed blob (a map from blobs to types,
  kept as an association list, the latest entry first), the raw reverse-reference
  rows ("raw inbound edges ... may include stale references"), and its failure modes:
  a scan that breaks after some rows with a terminal error, point lookups that fail, and
  blobs whose rows cannot be read. The spec does not say in which order a point query
  lists its matches ("Take the first match"); that order is the index's own, the field
  \<open>ix_matchOrder\<close>.
\<close>

record Index =
  ix_claims :: "Claim list"
  ix_meta :: "(blobref \<times> string) list"
  ix_edges :: "Edge list"
  ix_scanFault :: "(nat \<times> error) option"
  ix_fault :: "error option"
  ix_unreadable :: "(blobref \<times> error) list"
  ix_matchOrder :: "blobref list \<Rightarrow> blobref list"

text \<open>
  Modelled from the spec: "Permanode: identity blob whose current attribute state is the
  fold of all Claims referencing it", "superseded by later claims with the same attribute
  key (last-by-date wins for set semantics)". The claims of one signer on one permanode
  and attribute are applied in date order.
\<close>

definition applyClaim :: "string list \<Rightarrow> Claim \<Rightarrow> string list" where
  "applyClaim vs c =
     (if cl_Type c = ''set-attribute'' then [cl_Value c]
      else if cl_Type c = ''add-attribute'' then vs @ [cl_Value c]
      else if cl_Type c = ''del-attribute''
        then (if cl_Value c = [] then [] else removeAll (cl_Value c) vs)
      else vs)"

definition claimsOf :: "Index \<Rightarrow> blobref \<Rightarrow> blobref \<Rightarrow> Claim list" where
  "claimsOf ix signer pn =
     filter (\<lambda>c. cl_Permanode c = pn \<and> cl_Signer c = signer) (ix_claims ix)"

definition attrValues :: "Index \<Rightarrow> blobref \<Rightarrow> blobref \<Rightarrow> string \<Rightarrow> string list" where
  "attrValues ix signer pn attr =
     foldl applyClaim [] (sort_key cl_Date (filter (\<lambda>c. cl_Attr c = attr) (claimsOf ix signer pn)))"

definition attrNames :: "Index \<Rightarrow> blobref \<Rightarrow> blobref \<Rightarrow> string list" where
  "attrNames ix signer pn = remdups (map cl_Attr (claimsOf ix signer pn))"

definition lastModTime :: "Index \<Rightarrow> blobref \<Rightarrow> blobref \<Rightarrow> time" where
  "lastModTime ix signer pn = foldr max (map cl_Date (claimsOf ix signer pn)) 0"

definition permanodes :: "Index \<Rightarrow> blobref list" where
  "permanodes ix =
     remdups (filter (\<lambda>br. map_of (ix_meta ix) br = Some ''permanode'') (map fst (ix_meta ix)))"

text \<open>
  Modelled from the spec: "output item order is exactly scan emission order (index
  determines priority, e.g. recency)". The permanodes a signer has claims on, most
  recently modified first.
\<close>

definition recentRows :: "Index \<Rightarrow> blobref \<Rightarrow> blobref list" where
  "recentRows ix signer =
     rev (sort_key (lastModTime ix signer)
            (filter (\<lambda>pn. claimsOf ix signer pn \<noteq> []) (permanodes ix)))"

text \<open>
  Modelled from the spec: an index scan "streams matching items into a bounded channel,
  with sanitized N as the scan limit", and "a separate 1-capacity error channel carries
  the scan's terminal error". \<open>scan rows limit fault\<close> is what the channel carries before
  it is closed, and the terminal error.
\<close>

definition scan :: "'a list \<Rightarrow> int \<Rightarrow> (nat \<times> error) option \<Rightarrow> 'a list \<times> error option" where
  "scan rows limit fault =
     (let sent = take (nat limit) rows in
      case fault of
        None \<Rightarrow> (sent, None)
      | Some (k, e) \<Rightarrow> (take k sent, Some e))"

definition index_GetRecentPermanodes ::
  "Index \<Rightarrow> blobref \<Rightarrow> int \<Rightarrow> time \<Rightarrow> RecentPermanode list \<times> error option" where
  "index_GetRecentPermanodes ix owner limit beforeTime =
     scan (map (\<lambda>pn. \<lparr> rp_Permanode = pn, rp_Signer = owner,
                        rp_LastModTime = lastModTime ix owner pn \<rparr>)
             (filter (\<lambda>pn. lastModTime ix owner pn < beforeTime) (recentRows ix owner)))
          limit (ix_scanFault ix)"

definition Contains :: "string \<Rightarrow> string \<Rightarrow> bool" where
  "Contains s sub = list_ex (\<lambda>i. take (length sub) (drop i s) = sub) [0 ..< Suc (length s)]"

definition attrMatches :: "Index \<Rightarrow> PermanodeByAttrRequest \<Rightarrow> blobref \<Rightarrow> bool" where
  "attrMatches ix req pn =
     (if pa_FuzzyMatch req
      then list_ex (\<lambda>a. list_ex (\<lambda>v. Contains v (pa_Query req)) (attrValues ix (pa_Signer req) pn a))
             (if pa_Attribute req = [] then attrNames ix (pa_Signer req) pn else [pa_Attribute req])
      else if pa_Query req = [] then attrValues ix (pa_Signer req) pn (pa_Attribute req) \<noteq> []
      else pa_Query req \<in> set (attrValues ix (pa_Signer req) pn (pa_Attribute req)))"

definition index_SearchPermanodesWithAttr ::
  "Index \<Rightarrow> PermanodeByAttrRequest \<Rightarrow> blobref list \<times> error option" where
  "index_SearchPermanodesWithAttr ix req =
     scan (filter (attrMatches ix req) (recentRows ix (pa_Signer req)))
          (pa_MaxResults req) (ix_scanFault ix)"

text \<open>
  Modelled from the spec: "claim enumeration" of the index. The comment of \<open>GetClaims\<close>
  ("returns the claims on req.Permanode signed by sh.owner") and its call give the
  filters: the permanode, the signer when the filter is a valid ref, the attribute when
  the filter is not empty. The claims found are appended to \<open>dst\<close>.
\<close>

definition index_AppendClaims ::
  "Index \<Rightarrow> Claim list \<Rightarrow> blobref \<Rightarrow> blobref \<Rightarrow> string \<Rightarrow> error + Claim list" where
  "index_AppendClaims ix dst permaNode signerFilter attrFilter =
     (case ix_fault ix of
        Some e \<Rightarrow> Inl e
      | None \<Rightarrow>
          Inr (dst @ filter (\<lambda>c. cl_Permanode c = permaNode
                               \<and> (if Valid signerFilter then cl_Signer c = signerFilter else True)
                               \<and> (if attrFilter = [] then True else cl_Attr c = attrFilter))
                       (ix_claims ix)))"

text \<open>Modelled from the spec: "raw edge lookup" of the index.\<close>

definition index_EdgesTo :: "Index \<Rightarrow> blobref \<Rightarrow> error + Edge list" where
  "index_EdgesTo ix toRef =
     (case ix_fault ix of
        Some e \<Rightarrow> Inl e
      | None \<Rightarrow> Inr (filter (\<lambda>e. e_To e = toRef) (ix_edges ix)))"


section \<open>The handler and the describe collaborator\<close>

text \<open>
  \<open>Handler\<close>: the index, the blobs of \<open>storageAndIndex\<close> and the owner, as in the source,
  and the environment its methods read: the clock (\<open>time.Now\<close>), the random source of
  new permanodes, and whether the signer or a storage write fails.
\<close>

record Handler =
  sh_index :: Index
  sh_storageAndIndex :: "string list"
  sh_owner :: blobref
  sh_clock :: time
  sh_entropy :: nat
  sh_signFault :: "error option"
  sh_storeFault :: "error option"

record DescribedPermanode =
  dp_Attr :: "(string \<times> string list) list"

record DescribedBlob =
  db_BlobRef :: blobref
  db_CamliType :: string
  db_Permanode :: "DescribedPermanode option"
  db_Thumbnail :: int

type_synonym MetaMap = "(blobref \<times> DescribedBlob) list"

text \<open>A describe request collects the blobs to expand, each with its depth.\<close>

type_synonym DescribeRequest = "(blobref \<times> int) list"

definition NewDescribeRequest :: "Handler \<Rightarrow> DescribeRequest" where
  "NewDescribeRequest sh = []"

definition Describe :: "DescribeRequest \<Rightarrow> blobref \<Rightarrow> int \<Rightarrow> DescribeRequest" where
  "Describe dr br depth = dr @ [(br, depth)]"

text \<open>
  Modelled from the spec: "Describe: bounded-depth recursive expansion of a blobref into
  a client-facing metadata snapshot" (\<open>describe.go\<close> is not among the sources). A
  described permanode carries its current attributes, as the owner's claims fold; a blob
  whose rows cannot be read fails the expansion.
\<close>

definition describeBlob :: "Handler \<Rightarrow> blobref \<Rightarrow> int \<Rightarrow> error + DescribedBlob" where
  "describeBlob sh br thumb =
     (let ix = sh_index sh in
      case map_of (ix_unreadable ix) br of
        Some e \<Rightarrow> Inl e
      | None \<Rightarrow>
          let ty = (case map_of (ix_meta ix) br of Some t \<Rightarrow> t | None \<Rightarrow> []) in
          Inr \<lparr> db_BlobRef = br, db_CamliType = ty,
                db_Permanode =
                  (if ty = ''permanode''
                   then Some \<lparr> dp_Attr = map (\<lambda>a. (a, attrValues ix (sh_owner sh) br a))
                                            (attrNames ix (sh_owner sh) br) \<rparr>
                   else None),
                db_Thumbnail = thumb \<rparr>)"

definition DescribeSync :: "Handler \<Rightarrow> blobref \<Rightarrow> error + DescribedBlob" where
  "DescribeSync sh br = describeBlob sh br 0"

fun metaMapThumbs :: "Handler \<Rightarrow> DescribeRequest \<Rightarrow> int \<Rightarrow> error + MetaMap" where
  "metaMapThumbs sh [] thumb = Inr []"
| "metaMapThumbs sh ((br, depth) # dr) thumb =
     (case describeBlob sh br thumb of
        Inl e \<Rightarrow> Inl e
      | Inr db \<Rightarrow>
          (case metaMapThumbs sh dr thumb of
             Inl e \<Rightarrow> Inl e
           | Inr m \<Rightarrow> Inr ((br, db) # m)))"


section \<open>Streaming queries\<close>

record RecentItem =
  ri_BlobRef :: blobref
  ri_ModTime :: time
  ri_Owner :: blobref

record RecentResponse =
  Recent :: "RecentItem list"
  rs_Meta :: MetaMap

text \<open>
  The consumer loop \<open>for res := range ch\<close> of \<open>GetRecentPermanodes\<close>, over the items the
  channel carries.
\<close>

fun recentLoop ::
  "RecentPermanode list \<Rightarrow> DescribeRequest \<Rightarrow> RecentItem list \<Rightarrow> DescribeRequest \<times> RecentItem list" where
  "recentLoop [] dr recent = (dr, recent)"
| "recentLoop (res # ch) dr recent =
     recentLoop ch (Describe dr (rp_Permanode res) 2)
       (recent @ [\<lparr> ri_BlobRef = rp_Permanode res,
                     ri_ModTime = rp_LastModTime res,
                     ri_Owner = rp_Signer res \<rparr>])"

text \<open>
  The goroutine of \<open>GetRecentPermanodes\<close>: what the index scan sends on \<open>ch\<close> before it
  closes it, and the error it leaves on \<open>errch\<close>.
\<close>

definition recentScan :: "Handler \<Rightarrow> RecentRequest \<Rightarrow> RecentPermanode list \<times> error option" where
  "recentScan sh req =
     (let beforeTime = (if \<not> IsZero (rr_Before req) then rr_Before req else sh_clock sh)
      in index_GetRecentPermanodes (sh_index sh) (sh_owner sh) (RecentRequest_n req) beforeTime)"

definition GetRecentPermanodes :: "Handler \<Rightarrow> RecentRequest \<Rightarrow> error + RecentResponse" where
  "GetRecentPermanodes sh req =
     (let (ch, errch) = recentScan sh req;
          (dr, recent) = recentLoop ch (NewDescribeRequest sh) []
      in case errch of
           Some err \<Rightarrow> Inl err
         | None \<Rightarrow>
             (case metaMapThumbs sh dr (RecentRequest_thumbnailSize req) of
                Inl err \<Rightarrow> Inl err
              | Inr metaMap \<Rightarrow> Inr \<lparr> Recent = recent, rs_Meta = metaMap \<rparr>))"

record WithAttrItem =
  wi_Permanode :: blobref

record WithAttrResponse =
  WithAttr :: "WithAttrItem list"
  ws_Meta :: MetaMap

fun withAttrLoop ::
  "blobref list \<Rightarrow> DescribeRequest \<Rightarrow> WithAttrItem list \<Rightarrow> DescribeRequest \<times> WithAttrItem list" where
  "withAttrLoop [] dr withAttr = (dr, withAttr)"
| "withAttrLoop (res # ch) dr withAttr =
     withAttrLoop ch (Describe dr res 2) (withAttr @ [\<lparr> wi_Permanode = res \<rparr>])"

text \<open>
  The goroutine of \<open>GetPermanodesWithAttr\<close>. It passes \<open>req.N\<close> to the index as it
  finds it.
\<close>

definition withAttrScan :: "Handler \<Rightarrow> WithAttrRequest \<Rightarrow> blobref list \<times> error option" where
  "withAttrScan sh req =
     (let signer = (if \<not> Valid (wr_Signer req) then sh_owner sh else wr_Signer req)
      in index_SearchPermanodesWithAttr (sh_index sh)
           \<lparr> pa_Attribute = wr_Attr req, pa_Query = wr_Value req,
             pa_Signer = signer, pa_FuzzyMatch = wr_Fuzzy req,
             pa_MaxResults = wr_N req \<rparr>)"

text \<open>
  \<open>GetPermanodesWithAttr\<close> looks at the describe error before the scan's error.
\<close>

definition GetPermanodesWithAttr :: "Handler \<Rightarrow> WithAttrRequest \<Rightarrow> error + WithAttrResponse" where
  "GetPermanodesWithAttr sh req =
     (let (ch, errch) = withAttrScan sh req;
          (dr, withAttr) = withAttrLoop ch (NewDescribeRequest sh) []
      in case metaMapThumbs sh dr (WithAttrRequest_thumbnailSize req) of
           Inl err \<Rightarrow> Inl err
         | Inr metaMap \<Rightarrow>
             (case errch of
                Some err \<Rightarrow> Inl err
              | None \<Rightarrow> Inr \<lparr> WithAttr = withAttr, ws_Meta = metaMap \<rparr>))"

text \<open>
  \<open>servePermanodesWithAttr\<close> up to the JSON encoding: the request is read from HTTP,
  then answered. A panic of \<open>fromHTTP\<close> unwinds to \<open>RecoverJSON\<close>.
\<close>

definition servePermanodesWithAttr_result :: "Handler \<Rightarrow> Request \<Rightarrow> error + WithAttrResponse" where
  "servePermanodesWithAttr_result sh req =
     (case WithAttrRequest_fromHTTP req of
        Inl e \<Rightarrow> Inl e
      | Inr wr \<Rightarrow> GetPermanodesWithAttr sh wr)"

definition serveRecentPermanodes_result ::
  "(string \<Rightarrow> time) \<Rightarrow> Handler \<Rightarrow> Request \<Rightarrow> error + RecentResponse" where
  "serveRecentPermanodes_result ParseTime3339OrZero sh req =
     GetRecentPermanodes sh (RecentRequest_fromHTTP ParseTime3339OrZero req)"


section \<open>Claims of a permanode (\<open>GetClaims\<close>)\<close>

record ClaimsRequest =
  cr_Permanode :: blobref
  cr_AttrFilter :: string

record ClaimsItem =
  ci_BlobRef :: blobref
  ci_Signer :: blobref
  ci_Permanode :: blobref
  ci_Date :: time
  ci_Type :: string
  ci_Attr :: string
  ci_Value :: string

record ClaimsResponse =
  Claims :: "ClaimsItem list"

fun errorString :: "error \<Rightarrow> string" where
  "errorString (Error s) = s"
| "errorString (InvalidParameterError s) = ''invalid parameter: '' @ s"
| "errorString ErrSyntax = ''invalid syntax''"
| "errorString ErrRange = ''value out of range''"
| "errorString (Panic e) = errorString e"

text \<open>
  \<open>camtypes.ClaimsByDate\<close> is not among the sources. Modelled from the spec: "sorts ...
  by ascending date": \<open>Less i j\<close> holds when claim \<open>i\<close> is dated before claim \<open>j\<close>.
\<close>

definition ClaimsByDate_Less :: "Claim \<Rightarrow> Claim \<Rightarrow> bool" where
  "ClaimsByDate_Less a b = (cl_Date a < cl_Date b)"

definition claimsItem :: "Claim \<Rightarrow> ClaimsItem" where
  "claimsItem claim =
     \<lparr> ci_BlobRef = cl_BlobRef claim, ci_Signer = cl_Signer claim,
       ci_Permanode = cl_Permanode claim, ci_Date = cl_Date claim,
       ci_Type = cl_Type claim, ci_Attr = cl_Attr claim, ci_Value = cl_Value claim \<rparr>"

text \<open>
  \<open>GetClaims\<close>. Go's \<open>sort.Sort\<close> is the parameter \<open>sort_Sort\<close>: the library documents
  that it sorts by \<open>Less\<close> and that "the sort is not guaranteed to be stable", and its
  algorithm is not part of the repository.
\<close>

definition GetClaims ::
  "((Claim \<Rightarrow> Claim \<Rightarrow> bool) \<Rightarrow> Claim list \<Rightarrow> Claim list) \<Rightarrow> Handler \<Rightarrow> ClaimsRequest
     \<Rightarrow> error + ClaimsResponse" where
  "GetClaims sort_Sort sh req =
     (if \<not> Valid (cr_Permanode req) then Inl (Error ''Error getting claims: nil permanode.'')
      else
        (case index_AppendClaims (sh_index sh) [] (cr_Permanode req) (sh_owner sh)
                (cr_AttrFilter req) of
           Inl err \<Rightarrow>
             Inl (Error (''Error getting claims of '' @ String (cr_Permanode req) @ '': ''
                          @ errorString err))
         | Inr claims \<Rightarrow>
             Inr \<lparr> Claims = map claimsItem (sort_Sort ClaimsByDate_Less claims) \<rparr>))"

text \<open>
  What the Go library promises of \<open>sort.Sort\<close> on claims by date: the result is a
  rearrangement of the input in which no claim is dated before its predecessor.
\<close>

definition sortsByDate :: "((Claim \<Rightarrow> Claim \<Rightarrow> bool) \<Rightarrow> Claim list \<Rightarrow> Claim list) \<Rightarrow> bool" where
  "sortsByDate sort_Sort =
     (\<forall>xs. mset (sort_Sort ClaimsByDate_Less xs) = mset xs
          \<and> sorted (map cl_Date (sort_Sort ClaimsByDate_Less xs)))"

text \<open>
  A sorting procedure that keeps that promise: insertion sort moves each element left
  past the elements it is less than, as \<open>insertionSort\<close> of the Go library does.
\<close>

fun insertAfterEqual :: "('a \<Rightarrow> 'a \<Rightarrow> bool) \<Rightarrow> 'a \<Rightarrow> 'a list \<Rightarrow> 'a list" where
  "insertAfterEqual lt x [] = [x]"
| "insertAfterEqual lt x (y # ys) =
     (if lt x y then x # y # ys else y # insertAfterEqual lt x ys)"

definition insertionSort :: "('a \<Rightarrow> 'a \<Rightarrow> bool) \<Rightarrow> 'a list \<Rightarrow> 'a list" where
  "insertionSort lt xs = foldl (\<lambda>done x. insertAfterEqual lt x done) [] xs"



section \<open>Inbound references (\<open>EdgesTo\<close>)\<close>

record EdgesRequest =
  er_ToRef :: blobref

record EdgeItem =
  ei_From :: blobref
  ei_FromType :: string

record EdgesResponse =
  es_ToRef :: blobref
  EdgesTo_items :: "EdgeItem list"

record edgeOrError =
  eoe_edge :: "EdgeItem option"
  eoe_err :: "error option"

text \<open>
  The closure \<open>verify\<close>: what one verification task sends on \<open>resc\<close>.
  \<open>index.IsBlobReferenceAttribute\<close> is not among the sources and is a parameter.
\<close>

definition verify :: "(string \<Rightarrow> bool) \<Rightarrow> Handler \<Rightarrow> string \<Rightarrow> Edge \<Rightarrow> edgeOrError" where
  "verify IsBlobReferenceAttribute sh toRefStr edge =
     (case DescribeSync sh (e_From edge) of
        Inl err \<Rightarrow> \<lparr> eoe_edge = None, eoe_err = Some err \<rparr>
      | Inr db \<Rightarrow>
          let found =
            (case db_Permanode db of
               None \<Rightarrow> False
             | Some p \<Rightarrow>
                 list_ex (\<lambda>(attr, vv). IsBlobReferenceAttribute attr \<and> list_ex (\<lambda>v. v = toRefStr) vv)
                   (dp_Attr p))
          in \<lparr> eoe_edge = (if found
                            then Some \<lparr> ei_From = e_From edge, ei_FromType = ''permanode'' \<rparr>
                            else None),
               eoe_err = None \<rparr>)"

text \<open>
  The first loop of \<open>EdgesTo\<close>: permanode edges are handed to verification tasks (the
  list of dispatched edges stands for the counter \<open>verifying\<close> and the goroutines
  started), the others are appended to \<open>edgeItems\<close>.
\<close>

fun dispatch :: "Edge list \<Rightarrow> Edge list \<Rightarrow> EdgeItem list \<Rightarrow> Edge list \<times> EdgeItem list" where
  "dispatch [] verifying edgeItems = (verifying, edgeItems)"
| "dispatch (edge # edges) verifying edgeItems =
     (if e_FromType edge = ''permanode''
      then dispatch edges (verifying @ [edge]) edgeItems
      else dispatch edges verifying
             (edgeItems @ [\<lparr> ei_From = e_From edge, ei_FromType = e_FromType edge \<rparr>]))"

text \<open>
  The second loop: \<open>verifying\<close> receives from the unbuffered channel \<open>resc\<close>, whose
  contents are the results in the order the tasks complete. A receive with no result
  left never returns (\<open>None\<close>).
\<close>

fun fanIn :: "nat \<Rightarrow> edgeOrError list \<Rightarrow> EdgeItem list \<Rightarrow> (error + EdgeItem list) option" where
  "fanIn 0 resc edgeItems = Some (Inr edgeItems)"
| "fanIn (Suc n) [] edgeItems = None"
| "fanIn (Suc n) (res # resc) edgeItems =
     (case eoe_err res of
        Some err \<Rightarrow> Some (Inl err)
      | None \<Rightarrow>
          (case eoe_edge res of
             Some ei \<Rightarrow> fanIn n resc (edgeItems @ [ei])
           | None \<Rightarrow> fanIn n resc edgeItems))"

text \<open>
  \<open>EdgesTo\<close>. The scheduler is the parameter \<open>completion\<close>: the dispatched edges in the
  order their verification tasks complete. A failing index lookup panics.
\<close>

definition EdgesTo ::
  "(string \<Rightarrow> bool) \<Rightarrow> Edge list \<Rightarrow> Handler \<Rightarrow> EdgesRequest \<Rightarrow> (error + EdgesResponse) option" where
  "EdgesTo IsBlobReferenceAttribute completion sh req =
     (let toRef = er_ToRef req; toRefStr = String toRef in
      case index_EdgesTo (sh_index sh) toRef of
        Inl err \<Rightarrow> Some (Inl (Panic err))
      | Inr edges \<Rightarrow>
          let (verifying, edgeItems) = dispatch edges [] [];
              resc = map (verify IsBlobReferenceAttribute sh toRefStr) completion
          in (case fanIn (length verifying) resc edgeItems of
                None \<Rightarrow> None
              | Some (Inl err) \<Rightarrow> Some (Inl err)
              | Some (Inr items) \<Rightarrow> Some (Inr \<lparr> es_ToRef = toRef, EdgesTo_items = items \<rparr>)))"

text \<open>
  A completion order is one the Go scheduler can produce when it lists every dispatched
  task once.
\<close>

definition schedulable :: "Edge list \<Rightarrow> Edge list \<Rightarrow> bool" where
  "schedulable edges completion =
     (mset completion = mset (filter (\<lambda>e. e_FromType e = ''permanode'') edges))"

text \<open>
  Notions to state what \<open>EdgesTo\<close> returns: the first error among the results that
  arrive, the edge items the results carry, and the check in the spec's words ("the
  current fold of From's attributes still contains To" among the "attributes recognized
  as blobref-valued").
\<close>

fun firstError :: "edgeOrError list \<Rightarrow> error option" where
  "firstError [] = None"
| "firstError (res # resc) =
     (case eoe_err res of Some err \<Rightarrow> Some err | None \<Rightarrow> firstError resc)"

fun keptEdges :: "edgeOrError list \<Rightarrow> EdgeItem list" where
  "keptEdges [] = []"
| "keptEdges (res # resc) =
     (case eoe_edge res of Some ei \<Rightarrow> ei # keptEdges resc | None \<Rightarrow> keptEdges resc)"

definition stillReferences :: "(string \<Rightarrow> bool) \<Rightarrow> Handler \<Rightarrow> blobref \<Rightarrow> blobref \<Rightarrow> bool" where
  "stillReferences IsBlobReferenceAttribute sh toRef src =
     (case DescribeSync sh src of
        Inl err \<Rightarrow> False
      | Inr db \<Rightarrow>
          (case db_Permanode db of
             None \<Rightarrow> False
           | Some p \<Rightarrow>
               (\<exists>(attr, vv) \<in> set (dp_Attr p).
                   IsBlobReferenceAttribute attr \<and> String toRef \<in> set vv)))"

definition edgeItem :: "Edge \<Rightarrow> EdgeItem" where
  "edgeItem edge = \<lparr> ei_From = e_From edge, ei_FromType = e_FromType edge \<rparr>"


section \<open>Named aliases (\<open>GetNamed\<close>, \<open>SetNamed\<close>)\<close>

subsection \<open>Validation of the substitute\<close>

text \<open>
  The constraints of \<open>query.go\<close>, as far as this file builds and takes them apart.
\<close>

datatype Constraint =
    PermanodeConstraint string string
  | LogicalConstraint string Constraint Constraint
  | OtherConstraint string

text \<open>
  The JSON decoder of constraints and the query-expression parser are not among the
  sources ("the query-expression grammar/parser" is an external collaborator in the
  spec); both are parameters. The parser returns the constraint of the parsed query.
\<close>

record Parsers =
  decodeConstraint :: "string \<Rightarrow> error + Constraint"
  parseExpression :: "string \<Rightarrow> error + Constraint"

definition HasPrefix :: "string \<Rightarrow> string \<Rightarrow> bool" where
  "HasPrefix s p = (take (length p) s = p)"

definition HasSuffix :: "string \<Rightarrow> string \<Rightarrow> bool" where
  "HasSuffix s p = (length p \<le> length s \<and> drop (length s - length p) s = p)"

text \<open>
  \<open>evalSearchInput\<close>. \<open>sq.Constraint.Logical.B\<close> dereferences \<open>Logical\<close>, which panics
  when the parsed constraint is not a logical one.
\<close>

definition evalSearchInput :: "Parsers \<Rightarrow> string \<Rightarrow> error + Constraint" where
  "evalSearchInput ps inp =
     (if length inp = 0 then Inl (Error ''empty expression'')
      else if HasPrefix inp ''{'' \<and> HasSuffix inp ''}''
      then (case decodeConstraint ps inp of
              Inl err \<Rightarrow> Inl err
            | Inr cs \<Rightarrow> Inr cs)
      else (case parseExpression ps inp of
              Inl err \<Rightarrow> Inl err
            | Inr (LogicalConstraint opr a b) \<Rightarrow> Inr b
            | Inr _ \<Rightarrow> Inl (Panic (Error ''nil pointer dereference''))))"

subsection \<open>Storage, schema blobs and the signer\<close>

record SizedRef =
  sz_Ref :: blobref
  sz_Size :: nat

text \<open>
  Modelled from the spec: "Consumed from Storage: byte fetch by BlobRef, blob write
  (returns assigned BlobRef)", "content-addressed: rewriting identical text is
  idempotent, same resulting ref" (\<open>blobserver.ReceiveString\<close> and the storage are not
  among the sources).
\<close>

definition blobserver_ReceiveString :: "Handler \<Rightarrow> string \<Rightarrow> Handler \<times> (error + SizedRef)" where
  "blobserver_ReceiveString sh s =
     (case sh_storeFault sh of
        Some e \<Rightarrow> (sh, Inl e)
      | None \<Rightarrow>
          (sh\<lparr> sh_storageAndIndex :=
                 (if s \<in> set (sh_storageAndIndex sh) then sh_storageAndIndex sh
                  else sh_storageAndIndex sh @ [s]) \<rparr>,
           Inr \<lparr> sz_Ref = SHA1FromString s, sz_Size = length s \<rparr>))"

definition Fetch :: "Handler \<Rightarrow> blobref \<Rightarrow> error + string" where
  "Fetch sh br =
     (case br of
        ZeroRef \<Rightarrow> Inl (Error ''file does not exist'')
      | Ref d \<Rightarrow> if d \<in> set (sh_storageAndIndex sh) then Inr d
                 else Inl (Error ''file does not exist''))"

text \<open>\<open>ioutil.ReadAll\<close> of a reader over bytes held in memory.\<close>

definition ReadAll :: "string \<Rightarrow> error + string" where
  "ReadAll reader = Inr reader"

definition receiveString :: "Handler \<Rightarrow> string \<Rightarrow> Handler \<times> (error + SizedRef)" where
  "receiveString sh s =
     (case blobserver_ReceiveString sh s of
        (sh', Inl err) \<Rightarrow> (sh', Inl err)
      | (sh', Inr sref) \<Rightarrow> (sh', Inr sref))"

text \<open>
  Modelled from the spec: "Permanode created by writing an unsigned schema blob, then
  signing it", "Claim: signed, immutable statement {permanode, attr, value, type, date,
  signer}" (\<open>camlistore.org/pkg/schema\<close> is not among the sources). A new permanode
  draws its random part from the handler's random source; a new claim is dated by the
  clock, which then moves on.
\<close>

record Builder =
  b_camliType :: string
  b_random :: string
  b_claimType :: string
  b_permaNode :: blobref
  b_attribute :: string
  b_value :: string
  b_claimDate :: time
  b_camliSigner :: blobref

fun showNat :: "nat \<Rightarrow> string" where
  "showNat n =
     (if n < 10 then [char_of (48 + n)]
      else showNat (n div 10) @ [char_of (48 + n mod 10)])"

definition NewUnsignedPermanode :: "Handler \<Rightarrow> Handler \<times> Builder" where
  "NewUnsignedPermanode sh =
     (sh\<lparr> sh_entropy := Suc (sh_entropy sh) \<rparr>,
      \<lparr> b_camliType = ''permanode'', b_random = showNat (sh_entropy sh), b_claimType = [],
        b_permaNode = ZeroRef, b_attribute = [], b_value = [], b_claimDate = 0,
        b_camliSigner = ZeroRef \<rparr>)"

definition NewSetAttributeClaim ::
  "Handler \<Rightarrow> blobref \<Rightarrow> string \<Rightarrow> string \<Rightarrow> Handler \<times> Builder" where
  "NewSetAttributeClaim sh permaNode attr value =
     (sh\<lparr> sh_clock := Suc (sh_clock sh) \<rparr>,
      \<lparr> b_camliType = ''claim'', b_random = [], b_claimType = ''set-attribute'',
        b_permaNode = permaNode, b_attribute = attr, b_value = value,
        b_claimDate = sh_clock sh, b_camliSigner = ZeroRef \<rparr>)"

definition SetSigner :: "Builder \<Rightarrow> blobref \<Rightarrow> Builder" where
  "SetSigner b signer = b\<lparr> b_camliSigner := signer \<rparr>"

definition Builder_JSON :: "Builder \<Rightarrow> error + string" where
  \<open>Builder_JSON b =
     Inr (''{"camliVersion": 1, "camliType": "'' @ b_camliType b @ ''"''
          @ (if b_camliType b = ''permanode'' then '', "random": "'' @ b_random b @ ''"''
             else '', "claimType": "'' @ b_claimType b @ ''", "permaNode": "''
                  @ String (b_permaNode b) @ ''", "attribute": "'' @ b_attribute b
                  @ ''", "value": "'' @ b_value b @ ''", "claimDate": "''
                  @ showNat (b_claimDate b) @ ''"'')
          @ '', "camliSigner": "'' @ String (b_camliSigner b) @ ''"'')\<close>

text \<open>
  Modelled from the spec: "Consumed from Signer: unsigned-JSON-in, signed-JSON-out"
  (\<open>camlistore.org/pkg/jsonsign\<close> is not among the sources).
\<close>

definition Sign :: "Handler \<Rightarrow> string \<Rightarrow> error + string" where
  \<open>Sign sh unsigned =
     (case sh_signFault sh of
        Some e \<Rightarrow> Inl e
      | None \<Rightarrow> Inr (unsigned @ '', "camliSig": "signed"}''))\<close>

text \<open>
  Modelled from the spec: \<open>storageAndIndex\<close> hands every blob it stores to the index,
  which records a permanode, folds a claim into its permanode's state, and derives an
  edge "from attribute values that match a blobref pattern". The model indexes the
  builder that the signed JSON was rendered from.
\<close>

definition index_ReceiveSchema :: "Index \<Rightarrow> blobref \<Rightarrow> Builder \<Rightarrow> Index" where
  "index_ReceiveSchema ix br b =
     (if b_camliType b = ''claim''
      then ix\<lparr> ix_meta := (br, ''claim'') # ix_meta ix,
               ix_claims := ix_claims ix @
                 [\<lparr> cl_BlobRef = br, cl_Signer = b_camliSigner b, cl_Permanode = b_permaNode b,
                    cl_Date = b_claimDate b, cl_Type = b_claimType b, cl_Attr = b_attribute b,
                    cl_Value = b_value b \<rparr>],
               ix_edges := ix_edges ix @
                 (case Parse (b_value b) of
                    Some t \<Rightarrow> [\<lparr> e_From = b_permaNode b, e_FromType = ''permanode'', e_To = t \<rparr>]
                  | None \<Rightarrow> []) \<rparr>
      else ix\<lparr> ix_meta := (br, b_camliType b) # ix_meta ix \<rparr>)"

text \<open>
  \<open>receiveAndSign\<close>. The last step is the index's reading of the stored schema blob.
\<close>

definition receiveAndSign :: "Handler \<Rightarrow> Builder \<Rightarrow> Handler \<times> (error + SizedRef)" where
  "receiveAndSign sh b0 =
     (let b = SetSigner b0 (sh_owner sh) in
      case Builder_JSON b of
        Inl err \<Rightarrow> (sh, Inl err)
      | Inr unsigned \<Rightarrow>
          (case Sign sh unsigned of
             Inl err \<Rightarrow> (sh, Inl err)
           | Inr signed \<Rightarrow>
               (case receiveString sh signed of
                  (sh', Inl err) \<Rightarrow> (sh', Inl err)
                | (sh', Inr sref) \<Rightarrow>
                    (sh'\<lparr> sh_index := index_ReceiveSchema (sh_index sh') (sz_Ref sref) b \<rparr>,
                     Inr sref))))"

subsection \<open>The query behind \<open>GetNamed\<close>\<close>

record SearchQuery =
  sq_Constraint :: Constraint
  sq_Describe :: bool

record SearchResult =
  sr_Blobs :: "blobref list"
  sr_Meta :: MetaMap

text \<open>
  Modelled from the spec: "point-query the index for a permanode owned by this
  handler's owner with camliNamedSearch = name" (\<open>Handler.Query\<close> is in \<open>query.go\<close>, not
  among the sources). The permanodes whose attribute, as the signer's claims fold, holds
  the value.
\<close>

definition matchingPermanodes :: "Index \<Rightarrow> blobref \<Rightarrow> string \<Rightarrow> string \<Rightarrow> blobref list" where
  "matchingPermanodes ix signer attr value =
     filter (\<lambda>pn. value \<in> set (attrValues ix signer pn attr)) (permanodes ix)"

text \<open>
  The matches come in the order the index lists them, each with its describe metadata.
\<close>

definition Query :: "Handler \<Rightarrow> SearchQuery \<Rightarrow> error + SearchResult" where
  "Query sh q =
     (case ix_fault (sh_index sh) of
        Some e \<Rightarrow> Inl e
      | None \<Rightarrow>
          (case sq_Constraint q of
             PermanodeConstraint attr value \<Rightarrow>
               (let blobs = ix_matchOrder (sh_index sh)
                              (matchingPermanodes (sh_index sh) (sh_owner sh) attr value)
                in case metaMapThumbs sh (if sq_Describe q then map (\<lambda>b. (b, 1)) blobs else []) 0 of
                     Inl e \<Rightarrow> Inl e
                   | Inr m \<Rightarrow> Inr \<lparr> sr_Blobs = blobs, sr_Meta = m \<rparr>)
           | _ \<Rightarrow> Inl (Error ''unsupported constraint'')))"

text \<open>\<open>url.Values.Get\<close>: the first value of the key, or the empty string.\<close>

definition Get :: "(string \<times> string list) list \<Rightarrow> string \<Rightarrow> string" where
  "Get vals key = (case map_of vals key of Some (v # vs) \<Rightarrow> v | _ \<Rightarrow> [])"

subsection \<open>\<open>GetNamed\<close>\<close>

record GetNamedRequest =
  gn_Named :: string

record GetNamedResponse =
  gr_Named :: string
  gr_Substitute :: string
  gr_PermaRef :: blobref
  gr_SubstRef :: blobref

text \<open>
  \<open>GetNamed\<close>. \<open>sr.Describe.Meta.Get(...).Permanode.Attr\<close> dereferences two pointers;
  a nil one panics.
\<close>

definition GetNamed :: "Handler \<Rightarrow> GetNamedRequest \<Rightarrow> error + GetNamedResponse" where
  "GetNamed sh r =
     (case Query sh \<lparr> sq_Constraint = PermanodeConstraint ''camliNamedSearch'' (gn_Named r),
                      sq_Describe = True \<rparr> of
        Inl err \<Rightarrow> Inl err
      | Inr sr \<Rightarrow>
          (case sr_Blobs sr of
             [] \<Rightarrow> Inl (Error (''No named search found for: '' @ gn_Named r))
           | permaRef # others \<Rightarrow>
               (case map_of (sr_Meta sr) permaRef of
                  None \<Rightarrow> Inl (Panic (Error ''nil pointer dereference''))
                | Some db \<Rightarrow>
                    (case db_Permanode db of
                       None \<Rightarrow> Inl (Panic (Error ''nil pointer dereference''))
                     | Some p \<Rightarrow>
                         (let substRefS = Get (dp_Attr p) ''camliContent'' in
                          case Parse substRefS of
                            None \<Rightarrow> Inl (Error (''Invalid blob ref: '' @ substRefS))
                          | Some br \<Rightarrow>
                              (case Fetch sh br of
                                 Inl err \<Rightarrow> Inl err
                               | Inr reader \<Rightarrow>
                                   (case ReadAll reader of
                                      Inl err \<Rightarrow> Inl err
                                    | Inr result \<Rightarrow>
                                        Inr \<lparr> gr_Named = gn_Named r, gr_Substitute = result,
                                              gr_PermaRef = permaRef, gr_SubstRef = br \<rparr>)))))))"

subsection \<open>\<open>SetNamed\<close>\<close>

record SetNamedRequest =
  sn_Named :: string
  sn_Substitute :: string

record SetNamedResponse =
  sn_PermaRef :: blobref
  sn_SubstRef :: blobref

text \<open>The loop \<open>for _, claimBuilder := range claims\<close>: it stops at the first error.\<close>

fun signClaims :: "Handler \<Rightarrow> Builder list \<Rightarrow> Handler \<times> error option" where
  "signClaims sh [] = (sh, None)"
| "signClaims sh (claimBuilder # claims) =
     (case receiveAndSign sh claimBuilder of
        (sh', Inl err) \<Rightarrow> (sh', Some err)
      | (sh', Inr sref) \<Rightarrow> signClaims sh' claims)"

text \<open>
  The middle of \<open>SetNamed\<close>: the permanode of the alias and the claims that a new one
  needs. Every error of \<open>GetNamed\<close> takes the branch that creates a permanode; a panic
  of \<open>GetNamed\<close> is not an error value and unwinds.
\<close>

definition aliasPermanode ::
  "Handler \<Rightarrow> SetNamedRequest \<Rightarrow> Handler \<times> (error + blobref \<times> Builder list)" where
  "aliasPermanode sh r =
     (case GetNamed sh \<lparr> gn_Named = sn_Named r \<rparr> of
        Inr gr \<Rightarrow> (sh, Inr (gr_PermaRef gr, []))
      | Inl (Panic p) \<Rightarrow> (sh, Inl (Panic p))
      | Inl err \<Rightarrow>
          (let (sh1, pb) = NewUnsignedPermanode sh in
           case receiveAndSign sh1 pb of
             (sh2, Inl err) \<Rightarrow> (sh2, Inl err)
           | (sh2, Inr pnSRef) \<Rightarrow>
               (let pn = sz_Ref pnSRef;
                    (sh3, c1) = NewSetAttributeClaim sh2 pn ''camliNamedSearch'' (sn_Named r);
                    (sh4, c2) = NewSetAttributeClaim sh3 pn ''title'' (''named:'' @ sn_Named r)
                in (sh4, Inr (pn, [c1, c2])))))"

definition SetNamed :: "Parsers \<Rightarrow> Handler \<Rightarrow> SetNamedRequest \<Rightarrow> Handler \<times> (error + SetNamedResponse)" where
  "SetNamed ps sh r =
     (case evalSearchInput ps (sn_Substitute r) of
        Inl err \<Rightarrow> (sh, Inl err)
      | Inr cs \<Rightarrow>
          (case receiveString sh (sn_Substitute r) of
             (sh1, Inl err) \<Rightarrow> (sh1, Inl err)
           | (sh1, Inr ssref) \<Rightarrow>
               (let sref = sz_Ref ssref in
                case aliasPermanode sh1 r of
                  (sh2, Inl err) \<Rightarrow> (sh2, Inl err)
                | (sh2, Inr (pn, claims)) \<Rightarrow>
                    (let (sh3, c) = NewSetAttributeClaim sh2 pn ''camliContent'' (String sref) in
                     case signClaims sh3 (claims @ [c]) of
                       (sh4, Some err) \<Rightarrow> (sh4, Inl err)
                     | (sh4, None) \<Rightarrow> (sh4, Inr \<lparr> sn_PermaRef = pn, sn_SubstRef = sref \<rparr>)))))"


section \<open>Example data\<close>

text \<open>
  A small index, used to run the operations on concrete inputs: two permanodes of one
  owner. \<open>demoP1\<close> is titled and has the target as its member. \<open>demoP2\<close> is titled, and
  its content was first the target and then another blob, so the index still holds a
  reverse-reference row for it that is stale. A file refers to the target as well.
\<close>

definition demoOwner :: blobref where "demoOwner = Ref ''owner-key''"
definition demoP1 :: blobref where "demoP1 = Ref ''permanode-1''"
definition demoP2 :: blobref where "demoP2 = Ref ''permanode-2''"
definition demoFile :: blobref where "demoFile = Ref ''file-1''"
definition demoTarget :: blobref where "demoTarget = Ref ''target''"
definition demoOther :: blobref where "demoOther = Ref ''other''"

definition demoClaim ::
  "string \<Rightarrow> blobref \<Rightarrow> time \<Rightarrow> string \<Rightarrow> string \<Rightarrow> string \<Rightarrow> Claim" where
  "demoClaim name pn date ty attr val =
     \<lparr> cl_BlobRef = Ref name, cl_Signer = demoOwner, cl_Permanode = pn, cl_Date = date,
       cl_Type = ty, cl_Attr = attr, cl_Value = val \<rparr>"

definition demoEdge :: "blobref \<Rightarrow> string \<Rightarrow> Edge" where
  "demoEdge src ty = \<lparr> e_From = src, e_FromType = ty, e_To = demoTarget \<rparr>"

definition demoIndex :: Index where
  "demoIndex =
     \<lparr> ix_claims =
         [demoClaim ''claim-1'' demoP1 10 ''set-attribute'' ''title'' ''One'',
          demoClaim ''claim-2'' demoP2 20 ''set-attribute'' ''title'' ''Two'',
          demoClaim ''claim-3'' demoP1 30 ''set-attribute'' ''camliMember'' (String demoTarget),
          demoClaim ''claim-4'' demoP2 40 ''set-attribute'' ''camliContent'' (String demoTarget),
          demoClaim ''claim-5'' demoP2 50 ''set-attribute'' ''camliContent'' (String demoOther)],
       ix_meta = [(demoP1, ''permanode''), (demoP2, ''permanode''), (demoFile, ''file'')],
       ix_edges = [demoEdge demoP2 ''permanode'', demoEdge demoP1 ''permanode'',
                   demoEdge demoFile ''file''],
       ix_scanFault = None,
       ix_fault = None,
       ix_unreadable = [],
       ix_matchOrder = (\<lambda>rows. rows) \<rparr>"

definition demoHandler :: Handler where
  "demoHandler =
     \<lparr> sh_index = demoIndex, sh_storageAndIndex = [], sh_owner = demoOwner, sh_clock = 100,
       sh_entropy = 0, sh_signFault = None, sh_storeFault = None \<rparr>"

text \<open>
  The example index with other claims: two claims of the owner on \<open>demoP1\<close> that carry
  the same date, an earlier one, and a claim by another signer.
\<close>

definition demoTiesHandler :: Handler where
  "demoTiesHandler =
     demoHandler\<lparr> sh_index := demoIndex\<lparr> ix_claims :=
       [demoClaim ''tie-a'' demoP1 10 ''add-attribute'' ''tag'' ''a'',
        (demoClaim ''foreign'' demoP1 7 ''add-attribute'' ''tag'' ''z'')
          \<lparr> cl_Signer := Ref ''other-key'' \<rparr>,
        demoClaim ''tie-b'' demoP1 10 ''add-attribute'' ''tag'' ''b'',
        demoClaim ''early'' demoP1 5 ''set-attribute'' ''title'' ''One''] \<rparr> \<rparr>"

text \<open>
  The example index when it is failing: scans break after one row, and the rows of
  \<open>demoP2\<close> cannot be read.
\<close>

definition demoBrokenHandler :: Handler where
  "demoBrokenHandler =
     demoHandler\<lparr> sh_index := demoIndex\<lparr>
       ix_scanFault := Some (1, Error ''scan failed''),
       ix_unreadable := [(demoP2, Error ''describe failed'')] \<rparr> \<rparr>"

definition demoTitleTwo :: WithAttrRequest where
  "demoTitleTwo = \<lparr> wr_N = 5, wr_Signer = ZeroRef, wr_Attr = ''title'', wr_Value = ''Two'',
                    wr_Fuzzy = False, wr_ThumbnailSize = 0 \<rparr>"

text \<open>
  A stand-in for the parsers: every JSON object decodes, and an expression parses when
  it holds a predicate (a colon), so that \<open>bar\<close> is rejected as a literal.
\<close>

definition demoParsers :: Parsers where
  "demoParsers =
     \<lparr> decodeConstraint = (\<lambda>s. Inr (OtherConstraint s)),
       parseExpression =
         (\<lambda>s. if CHR '':'' \<in> set s
              then Inr (LogicalConstraint ''and'' (OtherConstraint ''skip'') (OtherConstraint s))
              else Inl (Error ''expected a predicate, found a literal'')) \<rparr>"

definition demoForm :: "(string \<times> string) list \<Rightarrow> string \<Rightarrow> string" where
  "demoForm kvs k = (case map_of kvs k of Some v \<Rightarrow> v | None \<Rightarrow> [])"

definition demoIsGet :: "Request \<Rightarrow> bool" where
  "demoIsGet req = (Method req = ''GET'')"

definition demoRequest :: "string \<Rightarrow> string \<Rightarrow> Request" where
  "demoRequest method endpoint =
     \<lparr> Method = method, PathSuffix = ''camli/search/'' @ endpoint,
       Form = demoForm [], Body = [] \<rparr>"



text \<open>
  An index with sixty permanodes of the owner, all titled \<open>Many\<close>, and a by-attribute
  request for them, built in code, that asks for 5000 results.
\<close>

definition manyRef :: "nat \<Rightarrow> blobref" where
  "manyRef i = Ref (replicate (Suc i) CHR ''m'')"

definition demoManyIndex :: Index where
  "demoManyIndex =
     demoIndex\<lparr>
       ix_claims := map (\<lambda>i. demoClaim ''many'' (manyRef i) 10 ''set-attribute'' ''title'' ''Many'')
                      [0 ..< 60],
       ix_meta := map (\<lambda>i. (manyRef i, ''permanode'')) [0 ..< 60],
       ix_edges := [] \<rparr>"

definition demoManyHandler :: Handler where
  "demoManyHandler = demoHandler\<lparr> sh_index := demoManyIndex \<rparr>"

definition demoManyRequest :: WithAttrRequest where
  "demoManyRequest = \<lparr> wr_N = 5000, wr_Signer = ZeroRef, wr_Attr = ''title'', wr_Value = ''Many'',
                       wr_Fuzzy = False, wr_ThumbnailSize = 0 \<rparr>"

text \<open>
  An index on which the alias \<open>foo\<close> exists, with a content claim that its signer dated
  after the handler's clock.
\<close>

definition demoFutureIndex :: Index where
  "demoFutureIndex =
     demoIndex\<lparr>
       ix_claims := [demoClaim ''alias-1'' demoP1 10 ''set-attribute'' ''camliNamedSearch'' ''foo'',
                     demoClaim ''alias-2'' demoP1 200 ''set-attribute'' ''camliContent''
                       (String (Ref ''is:old''))],
       ix_meta := [(demoP1, ''permanode'')],
       ix_edges := [] \<rparr>"

definition demoFutureHandler :: Handler where
  "demoFutureHandler =
     demoHandler\<lparr> sh_index := demoFutureIndex, sh_storageAndIndex := [''is:old''] \<rparr>"

definition demoIsBlobReferenceAttribute :: "string \<Rightarrow> bool" where
  "demoIsBlobReferenceAttribute attr = (attr = ''camliMember'' \<or> attr = ''camliContent'')"

definition demoWithAttrHTTP :: Request where
  "demoWithAttrHTTP =
     \<lparr> Method = ''GET'', PathSuffix = ''camli/search/permanodeattr'',
       Form = demoForm [(''attr'', ''title''), (''max'', ''1'')], Body = [] \<rparr>"


section \<open>Properties of parameter sanitization and dispatch\<close>

lemma sanitizeNumResults_eq:
  "sanitizeNumResults n = (if 0 < n \<and> n \<le> 1000 then n else 50)"
  by (simp add: sanitizeNumResults_def maxResults_def defaultNumResults_def)

lemma scan_length: "length (fst (scan rows limit fault)) \<le> nat limit"
  by (auto simp: scan_def Let_def split: option.splits)

lemma recentLoop_length:
  "length (snd (recentLoop ch dr recent)) = length recent + length ch"
  by (induction ch arbitrary: dr recent) auto

lemma withAttrLoop_length:
  "length (snd (withAttrLoop ch dr withAttr)) = length withAttr + length ch"
  by (induction ch arbitrary: dr withAttr) auto

lemma GetRecentPermanodes_length:
  assumes "GetRecentPermanodes sh req = Inr res"
  shows "length (Recent res) \<le> nat (RecentRequest_n req)"
proof -
  define sc where "sc = recentScan sh req"
  define lp where "lp = recentLoop (fst sc) (NewDescribeRequest sh) []"
  have len: "length (fst sc) \<le> nat (RecentRequest_n req)"
    unfolding sc_def recentScan_def Let_def index_GetRecentPermanodes_def by (rule scan_length)
  from assms have "Recent res = snd lp"
    unfolding GetRecentPermanodes_def Let_def lp_def sc_def
    by (auto split: prod.splits option.splits sum.splits)
  then show ?thesis
    using len recentLoop_length[of "fst sc" "NewDescribeRequest sh" "[]"]
    by (simp add: lp_def)
qed

text \<open>
  \<open>GetPermanodesWithAttr\<close> bounds its answer by \<open>req.N\<close> as it stands in the request.
\<close>

lemma GetPermanodesWithAttr_length:
  assumes "GetPermanodesWithAttr sh req = Inr res"
  shows "length (WithAttr res) \<le> nat (wr_N req)"
proof -
  define sc where "sc = withAttrScan sh req"
  define lp where "lp = withAttrLoop (fst sc) (NewDescribeRequest sh) []"
  have len: "length (fst sc) \<le> nat (wr_N req)"
    unfolding sc_def withAttrScan_def Let_def index_SearchPermanodesWithAttr_def
    by (simp add: scan_length)
  from assms have "WithAttr res = snd lp"
    unfolding GetPermanodesWithAttr_def Let_def lp_def sc_def
    by (auto split: prod.splits option.splits sum.splits)
  then show ?thesis
    using len withAttrLoop_length[of "fst sc" "NewDescribeRequest sh" "[]"]
    by (simp add: lp_def)
qed

lemma WithAttrRequest_fromHTTP_N:
  assumes "WithAttrRequest_fromHTTP hreq = Inr wr"
  shows "wr_N wr = sanitizeNumResults
           (if FormValue hreq ''max'' = [] then 0 else fst (Atoi (FormValue hreq ''max'')))"
  using assms
  by (auto simp: WithAttrRequest_fromHTTP_def Let_def WithAttrRequest_n_def split: if_splits)

lemma Atoi_examples:
  "Atoi ''123'' = (123, None)"
  "Atoi ''-42'' = (- 42, None)"
  "Atoi ''12x'' = (0, Some ErrSyntax)"
  "Atoi [] = (0, Some ErrSyntax)"
  "Atoi ''99999999999999999999'' = (9223372036854775807, Some ErrRange)"
  by (simp_all add: Atoi_def digitVal_def)

lemma recentLoop_items:
  "snd (recentLoop ch dr recent) =
     recent @ map (\<lambda>res. \<lparr> ri_BlobRef = rp_Permanode res, ri_ModTime = rp_LastModTime res,
                            ri_Owner = rp_Signer res \<rparr>) ch"
  by (induction ch arbitrary: dr recent) auto

lemma withAttrLoop_items:
  "snd (withAttrLoop ch dr withAttr) = withAttr @ map (\<lambda>res. \<lparr> wi_Permanode = res \<rparr>) ch"
  by (induction ch arbitrary: dr withAttr) auto

text \<open>
  The items of an answer are the rows that the index sent, and the index was asked with
  the sanitized count (recent query) or with \<open>req.N\<close> as it stands (by-attribute query).
\<close>

lemma GetRecentPermanodes_items:
  assumes "GetRecentPermanodes sh req = Inr res"
  shows "map ri_BlobRef (Recent res) =
           map rp_Permanode
             (fst (index_GetRecentPermanodes (sh_index sh) (sh_owner sh)
                     (sanitizeNumResults (rr_N req))
                     (if IsZero (rr_Before req) then sh_clock sh else rr_Before req)))"
proof -
  define sc where "sc = recentScan sh req"
  from assms have "Recent res = snd (recentLoop (fst sc) (NewDescribeRequest sh) [])"
    unfolding GetRecentPermanodes_def Let_def sc_def
    by (auto split: prod.splits option.splits sum.splits)
  then have "map ri_BlobRef (Recent res) = map rp_Permanode (fst sc)"
    by (simp add: recentLoop_items comp_def)
  then show ?thesis
    by (simp add: sc_def recentScan_def Let_def RecentRequest_n_def)
qed

lemma GetPermanodesWithAttr_items:
  assumes "GetPermanodesWithAttr sh req = Inr res"
  shows "map wi_Permanode (WithAttr res) =
           fst (index_SearchPermanodesWithAttr (sh_index sh)
                  \<lparr> pa_Attribute = wr_Attr req, pa_Query = wr_Value req,
                    pa_Signer = (if Valid (wr_Signer req) then wr_Signer req else sh_owner sh),
                    pa_FuzzyMatch = wr_Fuzzy req, pa_MaxResults = wr_N req \<rparr>)"
proof -
  define sc where "sc = withAttrScan sh req"
  from assms have "WithAttr res = snd (withAttrLoop (fst sc) (NewDescribeRequest sh) [])"
    unfolding GetPermanodesWithAttr_def Let_def sc_def
    by (auto split: prod.splits option.splits sum.splits)
  then have "map wi_Permanode (WithAttr res) = fst sc"
    by (simp add: withAttrLoop_items comp_def)
  then show ?thesis
    by (simp add: sc_def withAttrScan_def Let_def)
qed

text \<open>
  C5, as the code has it. The sanitized count is \<open>N\<close> when \<open>0 < N \<le> 1000\<close> and \<open>50\<close>
  otherwise. \<open>GetRecentPermanodes\<close> asks the index with the sanitized count of its
  request, whatever the request, and answers with the rows the index sent, which are no
  more than that. \<open>GetPermanodesWithAttr\<close> asks the index with \<open>req.N\<close> as it stands and
  answers with the rows the index sent; the count is sanitized only where the request is
  read from HTTP (\<open>N\<close> is then the number in \<open>max\<close>, or \<open>0\<close> when \<open>max\<close> is absent), so the
  bound of the sanitized count holds for the requests that \<open>servePermanodesWithAttr\<close>
  reads, not for a request built in code.
\<close>

theorem result_count_sanitized:
  "sanitizeNumResults N = (if 0 < N \<and> N \<le> 1000 then N else 50)
   \<and> (GetRecentPermanodes sh req = Inr res \<and> rr_N req = N
        \<longrightarrow> map ri_BlobRef (Recent res) =
              map rp_Permanode
                (fst (index_GetRecentPermanodes (sh_index sh) (sh_owner sh)
                        (if 0 < N \<and> N \<le> 1000 then N else 50)
                        (if IsZero (rr_Before req) then sh_clock sh else rr_Before req)))
            \<and> int (length (Recent res)) \<le> (if 0 < N \<and> N \<le> 1000 then N else 50))
   \<and> (GetPermanodesWithAttr sh wreq = Inr wres \<and> wr_N wreq = N
        \<longrightarrow> map wi_Permanode (WithAttr wres) =
              fst (index_SearchPermanodesWithAttr (sh_index sh)
                     \<lparr> pa_Attribute = wr_Attr wreq, pa_Query = wr_Value wreq,
                       pa_Signer = (if Valid (wr_Signer wreq) then wr_Signer wreq else sh_owner sh),
                       pa_FuzzyMatch = wr_Fuzzy wreq, pa_MaxResults = N \<rparr>)
            \<and> length (WithAttr wres) \<le> nat N)
   \<and> (servePermanodesWithAttr_result sh hreq = Inr hres
        \<and> (if FormValue hreq ''max'' = [] then 0 else fst (Atoi (FormValue hreq ''max''))) = N
        \<longrightarrow> (\<exists>wr. WithAttrRequest_fromHTTP hreq = Inr wr
                  \<and> wr_N wr = (if 0 < N \<and> N \<le> 1000 then N else 50)
                  \<and> map wi_Permanode (WithAttr hres) =
                      fst (index_SearchPermanodesWithAttr (sh_index sh)
                             \<lparr> pa_Attribute = wr_Attr wr, pa_Query = wr_Value wr,
                               pa_Signer = (if Valid (wr_Signer wr) then wr_Signer wr else sh_owner sh),
                               pa_FuzzyMatch = wr_Fuzzy wr,
                               pa_MaxResults = (if 0 < N \<and> N \<le> 1000 then N else 50) \<rparr>))
            \<and> int (length (WithAttr hres)) \<le> (if 0 < N \<and> N \<le> 1000 then N else 50))"
proof (intro conjI impI)
  show "sanitizeNumResults N = (if 0 < N \<and> N \<le> 1000 then N else 50)"
    by (rule sanitizeNumResults_eq)
next
  assume a: "GetRecentPermanodes sh req = Inr res \<and> rr_N req = N"
  then show "map ri_BlobRef (Recent res) =
              map rp_Permanode
                (fst (index_GetRecentPermanodes (sh_index sh) (sh_owner sh)
                        (if 0 < N \<and> N \<le> 1000 then N else 50)
                        (if IsZero (rr_Before req) then sh_clock sh else rr_Before req)))"
    using GetRecentPermanodes_items[of sh req res] by (simp add: sanitizeNumResults_eq)
  from a have "length (Recent res) \<le> nat (sanitizeNumResults N)"
    using GetRecentPermanodes_length[of sh req res] by (simp add: RecentRequest_n_def)
  then show "int (length (Recent res)) \<le> (if 0 < N \<and> N \<le> 1000 then N else 50)"
    unfolding sanitizeNumResults_eq by (cases "0 < N \<and> N \<le> 1000") auto
next
  assume a: "GetPermanodesWithAttr sh wreq = Inr wres \<and> wr_N wreq = N"
  then show "map wi_Permanode (WithAttr wres) =
              fst (index_SearchPermanodesWithAttr (sh_index sh)
                     \<lparr> pa_Attribute = wr_Attr wreq, pa_Query = wr_Value wreq,
                       pa_Signer = (if Valid (wr_Signer wreq) then wr_Signer wreq else sh_owner sh),
                       pa_FuzzyMatch = wr_Fuzzy wreq, pa_MaxResults = N \<rparr>)"
    using GetPermanodesWithAttr_items[of sh wreq wres] by simp
  from a show "length (WithAttr wres) \<le> nat N"
    using GetPermanodesWithAttr_length[of sh wreq wres] by simp
next
  assume a: "servePermanodesWithAttr_result sh hreq = Inr hres
        \<and> (if FormValue hreq ''max'' = [] then 0 else fst (Atoi (FormValue hreq ''max''))) = N"
  then obtain wr where wr:
    "WithAttrRequest_fromHTTP hreq = Inr wr" "GetPermanodesWithAttr sh wr = Inr hres"
    by (auto simp: servePermanodesWithAttr_result_def split: sum.splits)
  have n: "wr_N wr = (if 0 < N \<and> N \<le> 1000 then N else 50)"
    using WithAttrRequest_fromHTTP_N[OF wr(1)] a by (simp add: sanitizeNumResults_eq)
  show "\<exists>wr. WithAttrRequest_fromHTTP hreq = Inr wr
                  \<and> wr_N wr = (if 0 < N \<and> N \<le> 1000 then N else 50)
                  \<and> map wi_Permanode (WithAttr hres) =
                      fst (index_SearchPermanodesWithAttr (sh_index sh)
                             \<lparr> pa_Attribute = wr_Attr wr, pa_Query = wr_Value wr,
                               pa_Signer = (if Valid (wr_Signer wr) then wr_Signer wr else sh_owner sh),
                               pa_FuzzyMatch = wr_Fuzzy wr,
                               pa_MaxResults = (if 0 < N \<and> N \<le> 1000 then N else 50) \<rparr>)"
    using wr(1) n GetPermanodesWithAttr_items[OF wr(2)] by auto
  have "length (WithAttr hres) \<le> nat (wr_N wr)"
    using GetPermanodesWithAttr_length[OF wr(2)] .
  then show "int (length (WithAttr hres)) \<le> (if 0 < N \<and> N \<le> 1000 then N else 50)"
    unfolding n by (cases "0 < N \<and> N \<le> 1000") auto
qed

subsection \<open>An index without faults\<close>

lemma describeBlob_healthy:
  assumes "ix_unreadable (sh_index sh) = []"
  shows "describeBlob sh br thumb =
     Inr \<lparr> db_BlobRef = br,
           db_CamliType = (case map_of (ix_meta (sh_index sh)) br of Some t \<Rightarrow> t | None \<Rightarrow> []),
           db_Permanode =
             (if (case map_of (ix_meta (sh_index sh)) br of Some t \<Rightarrow> t | None \<Rightarrow> []) = ''permanode''
              then Some \<lparr> dp_Attr = map (\<lambda>a. (a, attrValues (sh_index sh) (sh_owner sh) br a))
                                       (attrNames (sh_index sh) (sh_owner sh) br) \<rparr>
              else None),
           db_Thumbnail = thumb \<rparr>"
  using assms by (simp add: describeBlob_def Let_def)

lemma metaMapThumbs_healthy:
  assumes "ix_unreadable (sh_index sh) = []"
  shows "\<exists>m. metaMapThumbs sh dr thumb = Inr m
           \<and> map fst m = map fst dr
           \<and> (\<forall>br db. (br, db) \<in> set m \<longrightarrow> describeBlob sh br thumb = Inr db)"
proof (induction dr)
  case Nil
  then show ?case by simp
next
  case (Cons a dr)
  obtain br depth where a: "a = (br, depth)" by (cases a)
  from Cons obtain m where m: "metaMapThumbs sh dr thumb = Inr m" "map fst m = map fst dr"
    "\<forall>br db. (br, db) \<in> set m \<longrightarrow> describeBlob sh br thumb = Inr db" by blast
  obtain db where db: "describeBlob sh br thumb = Inr db"
    using describeBlob_healthy[OF assms] by blast
  show ?case using m db by (auto simp: a)
qed

lemma GetPermanodesWithAttr_healthy:
  assumes "ix_scanFault (sh_index sh) = None" and "ix_unreadable (sh_index sh) = []"
  shows "\<exists>m. GetPermanodesWithAttr sh req =
               Inr \<lparr> WithAttr = map (\<lambda>res. \<lparr> wi_Permanode = res \<rparr>) (fst (withAttrScan sh req)),
                     ws_Meta = m \<rparr>"
proof -
  obtain ch errch where sc: "withAttrScan sh req = (ch, errch)" by (cases "withAttrScan sh req")
  have e: "errch = None"
    using sc assms(1)
    by (auto simp: withAttrScan_def index_SearchPermanodesWithAttr_def scan_def Let_def)
  obtain dr withAttr where lp: "withAttrLoop ch (NewDescribeRequest sh) [] = (dr, withAttr)"
    by (cases "withAttrLoop ch (NewDescribeRequest sh) []")
  then have w: "withAttr = map (\<lambda>res. \<lparr> wi_Permanode = res \<rparr>) ch"
    using withAttrLoop_items[of ch "NewDescribeRequest sh" "[]"] by simp
  obtain m where "metaMapThumbs sh dr (WithAttrRequest_thumbnailSize req) = Inr m"
    using metaMapThumbs_healthy[OF assms(2)] by blast
  then show ?thesis using sc e lp w by (simp add: GetPermanodesWithAttr_def)
qed

subsection \<open>The operations on the example index\<close>

lemma demo_distinct:
  "demoP1 \<noteq> demoP2" "demoP2 \<noteq> demoP1" "demoP1 \<noteq> demoFile" "demoP2 \<noteq> demoFile"
  "demoFile \<noteq> demoP1" "demoFile \<noteq> demoP2" "demoTarget \<noteq> demoOther" "demoOther \<noteq> demoTarget"
  by (simp_all add: demoP1_def demoP2_def demoFile_def demoTarget_def demoOther_def)

lemma demo_health:
  "ix_scanFault demoIndex = None" "ix_fault demoIndex = None" "ix_unreadable demoIndex = []"
  by (simp_all add: demoIndex_def)

lemma demo_meta:
  "map_of (ix_meta demoIndex) demoP1 = Some ''permanode''"
  "map_of (ix_meta demoIndex) demoP2 = Some ''permanode''"
  "map_of (ix_meta demoIndex) demoFile = Some ''file''"
  by (simp_all add: demoIndex_def demo_distinct)

lemma demo_sh:
  "sh_index demoHandler = demoIndex" "sh_owner demoHandler = demoOwner"
  "sh_clock demoHandler = 100"
  by (simp_all add: demoHandler_def)

lemma demo_claimsOf:
  "claimsOf demoIndex demoOwner demoP1 =
     [demoClaim ''claim-1'' demoP1 10 ''set-attribute'' ''title'' ''One'',
      demoClaim ''claim-3'' demoP1 30 ''set-attribute'' ''camliMember'' (String demoTarget)]"
  "claimsOf demoIndex demoOwner demoP2 =
     [demoClaim ''claim-2'' demoP2 20 ''set-attribute'' ''title'' ''Two'',
      demoClaim ''claim-4'' demoP2 40 ''set-attribute'' ''camliContent'' (String demoTarget),
      demoClaim ''claim-5'' demoP2 50 ''set-attribute'' ''camliContent'' (String demoOther)]"
  by (simp_all add: claimsOf_def demoIndex_def demoClaim_def demo_distinct)

lemma demo_lastModTime:
  "lastModTime demoIndex demoOwner demoP1 = 30"
  "lastModTime demoIndex demoOwner demoP2 = 50"
  by (simp_all add: lastModTime_def demo_claimsOf demoClaim_def)

lemma demo_permanodes: "permanodes demoIndex = [demoP1, demoP2]"
  by (simp add: permanodes_def demoIndex_def demo_distinct)

lemma demo_recentRows: "recentRows demoIndex demoOwner = [demoP2, demoP1]"
  by (simp add: recentRows_def demo_permanodes demo_claimsOf demo_lastModTime)

lemma demo_attrNames:
  "attrNames demoIndex demoOwner demoP1 = [''title'', ''camliMember'']"
  "attrNames demoIndex demoOwner demoP2 = [''title'', ''camliContent'']"
  by (simp_all add: attrNames_def demo_claimsOf demoClaim_def)

lemma demo_attrValues:
  "attrValues demoIndex demoOwner demoP1 ''title'' = [''One'']"
  "attrValues demoIndex demoOwner demoP1 ''camliMember'' = [String demoTarget]"
  "attrValues demoIndex demoOwner demoP2 ''title'' = [''Two'']"
  "attrValues demoIndex demoOwner demoP2 ''camliContent'' = [String demoOther]"
  by (simp_all add: attrValues_def demo_claimsOf demoClaim_def applyClaim_def)

lemma demo_describeBlob:
  "describeBlob demoHandler demoP1 t =
     Inr \<lparr> db_BlobRef = demoP1, db_CamliType = ''permanode'',
           db_Permanode = Some \<lparr> dp_Attr = [(''title'', [''One'']),
                                              (''camliMember'', [String demoTarget])] \<rparr>,
           db_Thumbnail = t \<rparr>"
  "describeBlob demoHandler demoP2 t =
     Inr \<lparr> db_BlobRef = demoP2, db_CamliType = ''permanode'',
           db_Permanode = Some \<lparr> dp_Attr = [(''title'', [''Two'']),
                                              (''camliContent'', [String demoOther])] \<rparr>,
           db_Thumbnail = t \<rparr>"
  by (simp_all add: describeBlob_def demo_sh demo_health demo_meta demo_attrNames demo_attrValues)

lemma demo_recent:
  "\<exists>m. GetRecentPermanodes demoHandler \<lparr> rr_N = 1, rr_Before = 0, rr_ThumbnailSize = 0 \<rparr> =
     Inr \<lparr> Recent = [\<lparr> ri_BlobRef = demoP2, ri_ModTime = 50, ri_Owner = demoOwner \<rparr>],
           rs_Meta = m \<rparr>"
proof -
  have sh: "sh_index demoHandler = demoIndex" "sh_owner demoHandler = demoOwner"
    "sh_clock demoHandler = 100"
    by (simp_all add: demoHandler_def)
  show ?thesis
    by (simp add: GetRecentPermanodes_def recentScan_def index_GetRecentPermanodes_def scan_def sh
        RecentRequest_n_def sanitizeNumResults_eq IsZero_def NewDescribeRequest_def Describe_def
        RecentRequest_thumbnailSize_def demo_recentRows demo_lastModTime demo_describeBlob
        demo_health)
qed

lemma demo_fromHTTP:
  "WithAttrRequest_fromHTTP demoWithAttrHTTP =
     Inr \<lparr> wr_N = 1, wr_Signer = ZeroRef, wr_Attr = ''title'', wr_Value = [], wr_Fuzzy = False,
           wr_ThumbnailSize = 0 \<rparr>"
  by (simp add: WithAttrRequest_fromHTTP_def demoWithAttrHTTP_def FormValue_def demoForm_def
      ToLower_def Atoi_def digitVal_def WithAttrRequest_n_def sanitizeNumResults_eq
      ParseOrZero_def Parse_def thumbnailSize_def thumbnailSizeStr_def)

lemma demo_withAttr:
  "\<exists>m. servePermanodesWithAttr_result demoHandler demoWithAttrHTTP =
     Inr \<lparr> WithAttr = [\<lparr> wi_Permanode = demoP2 \<rparr>], ws_Meta = m \<rparr>"
proof -
  have sh: "sh_index demoHandler = demoIndex" "sh_owner demoHandler = demoOwner"
    by (simp_all add: demoHandler_def)
  show ?thesis
    by (simp add: servePermanodesWithAttr_result_def demo_fromHTTP GetPermanodesWithAttr_def
        withAttrScan_def index_SearchPermanodesWithAttr_def scan_def Valid_def attrMatches_def sh
        NewDescribeRequest_def Describe_def WithAttrRequest_thumbnailSize_def
        demo_recentRows demo_attrValues demo_describeBlob demo_health)
qed

text \<open>The limits at work on the example index, with \<open>N = 1\<close>.\<close>

theorem result_count_sanitized_witness:
  "\<exists>res wres.
     GetRecentPermanodes demoHandler \<lparr> rr_N = 1, rr_Before = 0, rr_ThumbnailSize = 0 \<rparr> = Inr res
     \<and> map ri_BlobRef (Recent res) =
         map rp_Permanode (fst (index_GetRecentPermanodes demoIndex demoOwner 1 100))
     \<and> int (length (Recent res)) \<le> 1
     \<and> GetPermanodesWithAttr demoHandler
         \<lparr> wr_N = 1, wr_Signer = ZeroRef, wr_Attr = ''title'', wr_Value = [], wr_Fuzzy = False,
           wr_ThumbnailSize = 0 \<rparr> = Inr wres
     \<and> map wi_Permanode (WithAttr wres) =
         fst (index_SearchPermanodesWithAttr demoIndex
                \<lparr> pa_Attribute = ''title'', pa_Query = [], pa_Signer = demoOwner,
                  pa_FuzzyMatch = False, pa_MaxResults = 1 \<rparr>)
     \<and> servePermanodesWithAttr_result demoHandler demoWithAttrHTTP = Inr wres
     \<and> fst (Atoi (FormValue demoWithAttrHTTP ''max'')) = 1
     \<and> int (length (WithAttr wres)) \<le> 1"
proof -
  let ?rr = "\<lparr> rr_N = 1, rr_Before = 0, rr_ThumbnailSize = 0 \<rparr>"
  let ?wr = "\<lparr> wr_N = 1, wr_Signer = ZeroRef, wr_Attr = ''title'', wr_Value = [], wr_Fuzzy = False,
           wr_ThumbnailSize = 0 \<rparr>"
  obtain m where r: "GetRecentPermanodes demoHandler ?rr =
     Inr \<lparr> Recent = [\<lparr> ri_BlobRef = demoP2, ri_ModTime = 50, ri_Owner = demoOwner \<rparr>], rs_Meta = m \<rparr>"
    using demo_recent by blast
  obtain m' where w: "servePermanodesWithAttr_result demoHandler demoWithAttrHTTP =
     Inr \<lparr> WithAttr = [\<lparr> wi_Permanode = demoP2 \<rparr>], ws_Meta = m' \<rparr>"
    using demo_withAttr by blast
  then have g: "GetPermanodesWithAttr demoHandler ?wr =
     Inr \<lparr> WithAttr = [\<lparr> wi_Permanode = demoP2 \<rparr>], ws_Meta = m' \<rparr>"
    by (simp add: servePermanodesWithAttr_result_def demo_fromHTTP)
  have a: "FormValue demoWithAttrHTTP ''max'' = ''1''"
    by (simp add: FormValue_def demoWithAttrHTTP_def demoForm_def)
  have b: "fst (Atoi ''1'') = 1" by (simp add: Atoi_def digitVal_def)
  let ?res = "\<lparr> Recent = [\<lparr> ri_BlobRef = demoP2, ri_ModTime = 50, ri_Owner = demoOwner \<rparr>],
                 rs_Meta = m \<rparr>"
  let ?wres = "\<lparr> WithAttr = [\<lparr> wi_Permanode = demoP2 \<rparr>], ws_Meta = m' \<rparr>"
  have i: "fst (index_GetRecentPermanodes demoIndex demoOwner 1 100) =
             [\<lparr> rp_Permanode = demoP2, rp_Signer = demoOwner, rp_LastModTime = 50 \<rparr>]"
    by (simp add: index_GetRecentPermanodes_def scan_def demo_recentRows demo_lastModTime demo_health)
  have j: "fst (index_SearchPermanodesWithAttr demoIndex
                \<lparr> pa_Attribute = ''title'', pa_Query = [], pa_Signer = demoOwner,
                  pa_FuzzyMatch = False, pa_MaxResults = 1 \<rparr>) = [demoP2]"
    by (simp add: index_SearchPermanodesWithAttr_def scan_def demo_recentRows demo_attrValues
        attrMatches_def demo_health)
  show ?thesis
    using result_count_sanitized[where N = 1 and sh = demoHandler and req = ?rr and res = ?res
        and wreq = ?wr and wres = ?wres and hreq = demoWithAttrHTTP and hres = ?wres]
      r w g a b
    by (simp add: i j)
qed

text \<open>
  Sixty permanodes match the request \<open>demoManyRequest\<close>, which asks for 5000 results.
\<close>

lemma filter_eq_upt: "j < n \<Longrightarrow> filter (\<lambda>i. i = j) [0 ..< n] = [j]"
  by (induction n) auto

lemma map_of_const:
  "k \<in> set (map f xs) \<Longrightarrow> map_of (map (\<lambda>i. (f i, c)) xs) k = Some c"
  by (induction xs) auto

lemma manyRef_eq: "manyRef i = manyRef j \<longleftrightarrow> i = j"
  by (simp add: manyRef_def)

lemma many_index:
  "ix_claims demoManyIndex =
     map (\<lambda>i. demoClaim ''many'' (manyRef i) 10 ''set-attribute'' ''title'' ''Many'') [0 ..< 60]"
  "ix_meta demoManyIndex = map (\<lambda>i. (manyRef i, ''permanode'')) [0 ..< 60]"
  "ix_scanFault demoManyIndex = None" "ix_unreadable demoManyIndex = []"
  by (simp_all add: demoManyIndex_def demoIndex_def)

lemma many_claimsOf:
  assumes "j < 60"
  shows "claimsOf demoManyIndex demoOwner (manyRef j) =
           [demoClaim ''many'' (manyRef j) 10 ''set-attribute'' ''title'' ''Many'']"
proof -
  have "filter (\<lambda>i. manyRef i = manyRef j) [0 ..< 60] = [j]"
    using filter_eq_upt[OF assms] by (simp add: manyRef_eq)
  then show ?thesis
    by (simp add: claimsOf_def many_index(1) filter_map comp_def demoClaim_def)
qed

lemma many_attrValues:
  assumes "j < 60"
  shows "attrValues demoManyIndex demoOwner (manyRef j) ''title'' = [''Many'']"
  by (simp add: attrValues_def many_claimsOf[OF assms] demoClaim_def applyClaim_def)

lemma many_permanodes: "permanodes demoManyIndex = map manyRef [0 ..< 60]"
proof -
  have fst: "map fst (ix_meta demoManyIndex) = map manyRef [0 ..< 60]"
    by (simp add: many_index(2) comp_def)
  have "\<forall>br\<in>set (map manyRef [0 ..< 60]). map_of (ix_meta demoManyIndex) br = Some ''permanode''"
    unfolding many_index(2) using map_of_const[of _ manyRef "[0 ..< 60]" "''permanode''"] by blast
  then have "filter (\<lambda>br. map_of (ix_meta demoManyIndex) br = Some ''permanode'')
               (map manyRef [0 ..< 60]) = map manyRef [0 ..< 60]"
    by (intro filter_True) simp
  moreover have "distinct (map manyRef [0 ..< 60])"
    by (simp add: distinct_map inj_on_def manyRef_eq)
  ultimately show ?thesis by (simp add: permanodes_def fst)
qed

lemma many_matches:
  "length (filter (attrMatches demoManyIndex
             \<lparr> pa_Attribute = ''title'', pa_Query = ''Many'', pa_Signer = demoOwner,
               pa_FuzzyMatch = False, pa_MaxResults = 5000 \<rparr>)
           (recentRows demoManyIndex demoOwner)) = 60"
proof -
  let ?P = "attrMatches demoManyIndex
             \<lparr> pa_Attribute = ''title'', pa_Query = ''Many'', pa_Signer = demoOwner,
               pa_FuzzyMatch = False, pa_MaxResults = 5000 \<rparr>"
  let ?Q = "\<lambda>pn. claimsOf demoManyIndex demoOwner pn \<noteq> []"
  have all: "\<forall>pn\<in>set (map manyRef [0 ..< 60]). ?P pn \<and> ?Q pn"
    by (auto simp: attrMatches_def many_attrValues many_claimsOf)
  then have "filter ?Q (map manyRef [0 ..< 60]) = map manyRef [0 ..< 60]"
    by (intro filter_True) simp
  moreover have "filter ?P (map manyRef [0 ..< 60]) = map manyRef [0 ..< 60]"
    using all by (intro filter_True) simp
  ultimately have "filter ?P (filter ?Q (permanodes demoManyIndex)) = map manyRef [0 ..< 60]"
    by (simp add: many_permanodes)
  moreover have "length (filter ?P (recentRows demoManyIndex demoOwner)) =
        length (filter ?P (filter ?Q (permanodes demoManyIndex)))"
    unfolding recentRows_def by (simp add: rev_filter[symmetric] filter_sort)
  ultimately show ?thesis by simp
qed

text \<open>
  \<open>GetPermanodesWithAttr\<close>, called with \<open>N = 5000\<close>, answers with all sixty: more than the
  default of 50 that the sanitized count would allow.
\<close>

theorem unsanitized_count_counterexample:
  "wr_N demoManyRequest = 5000
   \<and> \<not> isl (GetPermanodesWithAttr demoManyHandler demoManyRequest)
   \<and> length (WithAttr (projr (GetPermanodesWithAttr demoManyHandler demoManyRequest))) = 60"
proof -
  have sh: "sh_index demoManyHandler = demoManyIndex" "sh_owner demoManyHandler = demoOwner"
    by (simp_all add: demoManyHandler_def demoHandler_def)
  have sc: "length (fst (withAttrScan demoManyHandler demoManyRequest)) = 60"
    using many_matches
    by (simp add: withAttrScan_def index_SearchPermanodesWithAttr_def scan_def sh
        demoManyRequest_def Valid_def many_index)
  obtain m where "GetPermanodesWithAttr demoManyHandler demoManyRequest =
       Inr \<lparr> WithAttr = map (\<lambda>res. \<lparr> wi_Permanode = res \<rparr>)
                         (fst (withAttrScan demoManyHandler demoManyRequest)),
             ws_Meta = m \<rparr>"
    using GetPermanodesWithAttr_healthy[of demoManyHandler demoManyRequest]
    by (auto simp: sh many_index)
  then show ?thesis using sc by (simp add: demoManyRequest_def)
qed


text \<open>
  The size read from the form value \<open>thumbnails\<close> is already \<open>0\<close> or within the range:
  \<open>thumbnailSizeStr\<close> gives \<open>0\<close> for an absent value only, and \<open>50\<close> for every number
  outside \<open>[25, 800]\<close>, the number \<open>0\<close> included.
\<close>

lemma thumbnailSizeStr_range:
  "thumbnailSizeStr s = 0 \<or> (25 \<le> thumbnailSizeStr s \<and> thumbnailSizeStr s \<le> 800)"
  by (simp add: thumbnailSizeStr_def Let_def minThumbSize_def maxThumbSize_def defThumbSize_def)






text \<open>
  C9. \<open>ServeHTTP\<close> looks the path suffix up in the table of the request's method: the
  GET table when \<open>httputil.IsGet\<close> accepts the request, the POST table when the method is
  POST, and no table otherwise. Whenever that table has no entry for the suffix (the
  suffix is no registered endpoint, it is registered for the other method only, or the
  method is neither), \<open>ServeHTTP\<close> answers itself with the JSON object
  \<open>{error, errorType: "input"}\<close>; the request is never passed on or answered otherwise.
\<close>

theorem unsupported_request_json_error:
  assumes "map_of (if IsGet req then getHandler
                   else if Method req = ''POST'' then postHandler
                   else [])
             (TrimPrefix (PathSuffix req) ''camli/search/'') = None"
  shows "ServeHTTP IsGet req =
           ReturnJSON [(''error'', ''Unsupported search path or method''), (''errorType'', ''input'')]"
  using assms by (simp add: ServeHTTP_def Let_def)

lemma demo_tables:
  "map_of getHandler ''nosuch'' = None"
  "map_of getHandler ''setnamed'' = None"
  "map_of getHandler ''query'' = None"
  "map_of postHandler ''recent'' = None"
  "map_of postHandler ''claims'' = None"
  by (simp_all add: getHandler_def postHandler_def)

text \<open>
  An unknown path, a method that is neither GET nor POST, a mutation endpoint asked with
  GET and query endpoints asked with POST.
\<close>

theorem unsupported_request_json_error_witness:
  "ServeHTTP demoIsGet (demoRequest ''GET'' ''nosuch'') =
       ReturnJSON [(''error'', ''Unsupported search path or method''), (''errorType'', ''input'')]
   \<and> ServeHTTP demoIsGet (demoRequest ''DELETE'' ''recent'') =
       ReturnJSON [(''error'', ''Unsupported search path or method''), (''errorType'', ''input'')]
   \<and> ServeHTTP demoIsGet (demoRequest ''GET'' ''setnamed'') =
       ReturnJSON [(''error'', ''Unsupported search path or method''), (''errorType'', ''input'')]
   \<and> ServeHTTP demoIsGet (demoRequest ''GET'' ''query'') =
       ReturnJSON [(''error'', ''Unsupported search path or method''), (''errorType'', ''input'')]
   \<and> ServeHTTP demoIsGet (demoRequest ''POST'' ''recent'') =
       ReturnJSON [(''error'', ''Unsupported search path or method''), (''errorType'', ''input'')]
   \<and> ServeHTTP demoIsGet (demoRequest ''POST'' ''claims'') =
       ReturnJSON [(''error'', ''Unsupported search path or method''), (''errorType'', ''input'')]"
  using unsupported_request_json_error[of demoIsGet "demoRequest ''GET'' ''nosuch''"]
    unsupported_request_json_error[of demoIsGet "demoRequest ''DELETE'' ''recent''"]
    unsupported_request_json_error[of demoIsGet "demoRequest ''GET'' ''setnamed''"]
    unsupported_request_json_error[of demoIsGet "demoRequest ''GET'' ''query''"]
    unsupported_request_json_error[of demoIsGet "demoRequest ''POST'' ''recent''"]
    unsupported_request_json_error[of demoIsGet "demoRequest ''POST'' ''claims''"]
  by (simp add: demoRequest_def demoIsGet_def demo_tables TrimPrefix_def)

text \<open>Requests that the tables do route.\<close>

lemma ServeHTTP_routes:
  "ServeHTTP demoIsGet \<lparr> Method = ''GET'', PathSuffix = ''camli/search/recent'',
                          Form = demoForm [], Body = [] \<rparr> = Served serveRecentPermanodes"
  "ServeHTTP demoIsGet \<lparr> Method = ''POST'', PathSuffix = ''camli/search/setnamed'',
                          Form = demoForm [], Body = [] \<rparr> = Served serveSetNamed"
  "ServeHTTP demoIsGet \<lparr> Method = ''GET'', PathSuffix = ''camli/search/setnamed'',
                          Form = demoForm [], Body = [] \<rparr> =
     ReturnJSON [(''error'', ''Unsupported search path or method''), (''errorType'', ''input'')]"
  by (simp_all add: ServeHTTP_def demoIsGet_def getHandler_def postHandler_def TrimPrefix_def)


section \<open>Properties of \<open>GetClaims\<close>\<close>

subsection \<open>Insertion sort keeps the promise of \<open>sort.Sort\<close>\<close>

lemma mset_insertAfterEqual: "mset (insertAfterEqual lt x ys) = add_mset x (mset ys)"
  by (induction ys) auto

lemma set_insertAfterEqual: "set (insertAfterEqual lt x ys) = insert x (set ys)"
  by (induction ys) auto

lemma sorted_insertAfterEqual:
  fixes f :: "'a \<Rightarrow> nat"
  assumes "sorted (map f ys)"
  shows "sorted (map f (insertAfterEqual (\<lambda>a b. f a < f b) x ys))"
  using assms by (induction ys) (auto simp: set_insertAfterEqual)

lemma foldl_insertAfterEqual:
  fixes f :: "'a \<Rightarrow> nat"
  assumes "sorted (map f acc)"
  shows "mset (foldl (\<lambda>done x. insertAfterEqual (\<lambda>a b. f a < f b) x done) acc xs) = mset acc + mset xs
       \<and> sorted (map f (foldl (\<lambda>done x. insertAfterEqual (\<lambda>a b. f a < f b) x done) acc xs))"
  using assms
  by (induction xs arbitrary: acc) (auto simp: mset_insertAfterEqual sorted_insertAfterEqual)

lemma ClaimsByDate_Less_eq: "ClaimsByDate_Less = (\<lambda>a b. cl_Date a < cl_Date b)"
  by (intro ext) (simp add: ClaimsByDate_Less_def)

lemma sortsByDate_insertionSort: "sortsByDate insertionSort"
  unfolding sortsByDate_def insertionSort_def ClaimsByDate_Less_eq
  using foldl_insertAfterEqual[of cl_Date "[]"] by simp blast

text \<open>Insertion sort leaves claims of equal date in the order it found them.\<close>

lemma filter_insertAfterEqual:
  fixes f :: "'a \<Rightarrow> nat"
  assumes "sorted (map f ys)"
  shows "filter (\<lambda>y. f y = k) (insertAfterEqual (\<lambda>a b. f a < f b) x ys) =
           filter (\<lambda>y. f y = k) ys @ (if f x = k then [x] else [])"
  using assms
proof (induction ys)
  case Nil
  then show ?case by simp
next
  case (Cons y ys)
  show ?case
  proof (cases "f x < f y")
    case True
    with Cons.prems have "\<forall>z\<in>set (y # ys). f x < f z" by auto
    then have "f x = k \<Longrightarrow> filter (\<lambda>y. f y = k) (y # ys) = []"
      by (auto simp: filter_empty_conv)
    with True show ?thesis by auto
  next
    case False
    with Cons show ?thesis by auto
  qed
qed

lemma insertionSort_stable_aux:
  fixes f :: "'a \<Rightarrow> nat"
  assumes "sorted (map f acc)"
  shows "filter (\<lambda>y. f y = k) (foldl (\<lambda>done x. insertAfterEqual (\<lambda>a b. f a < f b) x done) acc xs) =
           filter (\<lambda>y. f y = k) acc @ filter (\<lambda>y. f y = k) xs"
  using assms
proof (induction xs arbitrary: acc)
  case Nil
  then show ?case by simp
next
  case (Cons x xs)
  have "sorted (map f (insertAfterEqual (\<lambda>a b. f a < f b) x acc))"
    using Cons.prems by (rule sorted_insertAfterEqual)
  from Cons.IH[OF this] show ?case
    by (simp add: filter_insertAfterEqual[OF Cons.prems])
qed

lemma insertionSort_stable:
  "filter (\<lambda>c. cl_Date c = d) (insertionSort ClaimsByDate_Less xs) = filter (\<lambda>c. cl_Date c = d) xs"
  unfolding insertionSort_def ClaimsByDate_Less_eq
  using insertionSort_stable_aux[of cl_Date "[]" d xs] by simp

subsection \<open>What \<open>GetClaims\<close> returns\<close>

lemma GetClaims_Inr:
  assumes "GetClaims S sh req = Inr res"
  shows "Valid (cr_Permanode req)
       \<and> (\<exists>fetched. index_AppendClaims (sh_index sh) [] (cr_Permanode req) (sh_owner sh)
                       (cr_AttrFilter req) = Inr fetched
                   \<and> Claims res = map claimsItem (S ClaimsByDate_Less fetched))"
  using assms by (auto simp: GetClaims_def split: if_splits sum.splits)

lemma ci_Date_claimsItem: "ci_Date \<circ> claimsItem = cl_Date"
  by (auto simp: claimsItem_def)

text \<open>
  C10. When the handler's owner is a valid ref, every claim \<open>GetClaims\<close> returns is
  signed by the owner (and is a claim on the requested permanode): the owner is the
  signer filter of the index enumeration, and sorting adds no claim.
\<close>

theorem claims_signed_by_owner:
  assumes "sortsByDate sort_Sort"
    and "Valid (sh_owner sh)"
    and "GetClaims sort_Sort sh req = Inr res"
  shows "\<forall>c\<in>set (Claims res). ci_Signer c = sh_owner sh \<and> ci_Permanode c = cr_Permanode req"
proof -
  from GetClaims_Inr[OF assms(3)] obtain fetched where
    f: "index_AppendClaims (sh_index sh) [] (cr_Permanode req) (sh_owner sh) (cr_AttrFilter req) = Inr fetched"
    and r: "Claims res = map claimsItem (sort_Sort ClaimsByDate_Less fetched)"
    by blast
  have "mset (sort_Sort ClaimsByDate_Less fetched) = mset fetched"
    using assms(1) by (simp add: sortsByDate_def)
  then have s: "set (sort_Sort ClaimsByDate_Less fetched) = set fetched"
    by (rule mset_eq_setD)
  from f assms(2) have "\<forall>c\<in>set fetched. cl_Signer c = sh_owner sh \<and> cl_Permanode c = cr_Permanode req"
    by (auto simp: index_AppendClaims_def split: option.splits)
  with s r show ?thesis by (auto simp: claimsItem_def)
qed


lemma demoTies_fetched:
  "index_AppendClaims (sh_index demoTiesHandler) [] demoP1 (sh_owner demoTiesHandler) [] =
     Inr [demoClaim ''tie-a'' demoP1 10 ''add-attribute'' ''tag'' ''a'',
          demoClaim ''tie-b'' demoP1 10 ''add-attribute'' ''tag'' ''b'',
          demoClaim ''early'' demoP1 5 ''set-attribute'' ''title'' ''One'']"
  by (simp add: index_AppendClaims_def demoTiesHandler_def demoHandler_def demoIndex_def
      demoClaim_def Valid_def demoOwner_def)

text \<open>Under insertion sort the claims of equal date keep their fetched order.\<close>

lemma demoTies_insertionSort:
  "GetClaims insertionSort demoTiesHandler \<lparr> cr_Permanode = demoP1, cr_AttrFilter = [] \<rparr> =
       Inr \<lparr> Claims = map claimsItem
             [demoClaim ''early'' demoP1 5 ''set-attribute'' ''title'' ''One'',
              demoClaim ''tie-a'' demoP1 10 ''add-attribute'' ''tag'' ''a'',
              demoClaim ''tie-b'' demoP1 10 ''add-attribute'' ''tag'' ''b''] \<rparr>"
  by (simp add: GetClaims_def demoTies_fetched insertionSort_def ClaimsByDate_Less_def)
     (simp add: Valid_def demoP1_def demoClaim_def)

theorem claims_signed_by_owner_witness:
  "sortsByDate insertionSort \<and> Valid (sh_owner demoTiesHandler)
   \<and> GetClaims insertionSort demoTiesHandler \<lparr> cr_Permanode = demoP1, cr_AttrFilter = [] \<rparr> =
       Inr \<lparr> Claims = map claimsItem
             [demoClaim ''early'' demoP1 5 ''set-attribute'' ''title'' ''One'',
              demoClaim ''tie-a'' demoP1 10 ''add-attribute'' ''tag'' ''a'',
              demoClaim ''tie-b'' demoP1 10 ''add-attribute'' ''tag'' ''b''] \<rparr>
   \<and> list_all (\<lambda>c. ci_Signer c = sh_owner demoTiesHandler \<and> ci_Permanode c = demoP1)
        (map claimsItem
             [demoClaim ''early'' demoP1 5 ''set-attribute'' ''title'' ''One'',
              demoClaim ''tie-a'' demoP1 10 ''add-attribute'' ''tag'' ''a'',
              demoClaim ''tie-b'' demoP1 10 ''add-attribute'' ''tag'' ''b''])"
proof -
  have v: "Valid (sh_owner demoTiesHandler)"
    by (simp add: Valid_def demoTiesHandler_def demoHandler_def demoOwner_def)
  show ?thesis
    using claims_signed_by_owner[OF sortsByDate_insertionSort v demoTies_insertionSort]
      sortsByDate_insertionSort v demoTies_insertionSort
    by (simp add: list_all_iff)
qed


section \<open>Properties of \<open>EdgesTo\<close>\<close>

lemma dispatch_eq:
  "dispatch edges verifying edgeItems =
     (verifying @ filter (\<lambda>e. e_FromType e = ''permanode'') edges,
      edgeItems @ map edgeItem (filter (\<lambda>e. e_FromType e \<noteq> ''permanode'') edges))"
  by (induction edges arbitrary: verifying edgeItems) (auto simp: edgeItem_def)

lemma fanIn_eq:
  assumes "length resc = n"
  shows "fanIn n resc edgeItems =
           (case firstError resc of
              Some err \<Rightarrow> Some (Inl err)
            | None \<Rightarrow> Some (Inr (edgeItems @ keptEdges resc)))"
  using assms
proof (induction resc arbitrary: n edgeItems)
  case Nil
  then show ?case by simp
next
  case (Cons res resc)
  then obtain m where n: "n = Suc m" and m: "length resc = m" by (cases n) auto
  show ?case
  proof (cases "eoe_err res")
    case (Some err)
    then show ?thesis by (simp add: n)
  next
    case None
    then show ?thesis
      using Cons.IH[OF m] by (cases "eoe_edge res") (auto simp: n split: option.splits)
  qed
qed

lemma schedulable_length:
  assumes "schedulable edges completion"
  shows "length completion = length (filter (\<lambda>e. e_FromType e = ''permanode'') edges)"
  using assms unfolding schedulable_def by (metis size_mset)

lemma schedulable_set:
  assumes "schedulable edges completion"
  shows "set completion = {e \<in> set edges. e_FromType e = ''permanode''}"
proof -
  from assms have "set completion = set (filter (\<lambda>e. e_FromType e = ''permanode'') edges)"
    unfolding schedulable_def by (rule mset_eq_setD)
  then show ?thesis by simp
qed

text \<open>What \<open>EdgesTo\<close> returns under a completion order the scheduler can produce.\<close>

lemma EdgesTo_eq:
  assumes "index_EdgesTo (sh_index sh) (er_ToRef req) = Inr edges"
    and "schedulable edges completion"
  shows "EdgesTo IsBRA completion sh req =
           (case firstError (map (verify IsBRA sh (String (er_ToRef req))) completion) of
              Some err \<Rightarrow> Some (Inl err)
            | None \<Rightarrow>
                Some (Inr \<lparr> es_ToRef = er_ToRef req,
                            EdgesTo_items =
                              map edgeItem (filter (\<lambda>e. e_FromType e \<noteq> ''permanode'') edges)
                              @ keptEdges (map (verify IsBRA sh (String (er_ToRef req))) completion) \<rparr>))"
proof -
  have len: "length (map (verify IsBRA sh (String (er_ToRef req))) completion) =
             length (filter (\<lambda>e. e_FromType e = ''permanode'') edges)"
    using schedulable_length[OF assms(2)] by simp
  show ?thesis
    unfolding EdgesTo_def Let_def
    by (simp add: assms(1) dispatch_eq fanIn_eq[OF len] split: option.splits)
qed

lemma verify_ok:
  "eoe_err (verify IsBRA sh (String toRef) edge) = None \<Longrightarrow>
   eoe_edge (verify IsBRA sh (String toRef) edge) =
     (if stillReferences IsBRA sh toRef (e_From edge)
      then Some \<lparr> ei_From = e_From edge, ei_FromType = ''permanode'' \<rparr> else None)"
  by (auto simp: verify_def stillReferences_def Let_def list_ex_iff split: sum.splits option.splits)

lemma keptEdges_verify:
  assumes "firstError (map (verify IsBRA sh (String toRef)) es) = None"
  shows "keptEdges (map (verify IsBRA sh (String toRef)) es) =
           map (\<lambda>e. \<lparr> ei_From = e_From e, ei_FromType = ''permanode'' \<rparr>)
             (filter (\<lambda>e. stillReferences IsBRA sh toRef (e_From e)) es)"
  using assms
proof (induction es)
  case Nil
  then show ?case by simp
next
  case (Cons e es)
  from Cons.prems have e: "eoe_err (verify IsBRA sh (String toRef) e) = None"
    and es: "firstError (map (verify IsBRA sh (String toRef)) es) = None"
    by (auto split: option.splits)
  show ?case
    using Cons.IH[OF es] verify_ok[OF e] by simp
qed

lemma EdgesTo_no_error:
  assumes "index_EdgesTo (sh_index sh) (er_ToRef req) = Inr edges"
    and "schedulable edges completion"
    and "firstError (map (verify IsBRA sh (String (er_ToRef req))) completion) = None"
  shows "EdgesTo IsBRA completion sh req =
           Some (Inr \<lparr> es_ToRef = er_ToRef req,
                       EdgesTo_items =
                         map edgeItem (filter (\<lambda>e. e_FromType e \<noteq> ''permanode'') edges)
                         @ map (\<lambda>e. \<lparr> ei_From = e_From e, ei_FromType = ''permanode'' \<rparr>)
                             (filter (\<lambda>e. stillReferences IsBRA sh (er_ToRef req) (e_From e))
                                completion) \<rparr>)"
  using EdgesTo_eq[OF assms(1,2)] assms(3) keptEdges_verify[OF assms(3)] by simp

lemma EdgesTo_success:
  assumes "index_EdgesTo (sh_index sh) (er_ToRef req) = Inr edges"
    and "schedulable edges completion"
    and "EdgesTo IsBRA completion sh req = Some (Inr res)"
  shows "firstError (map (verify IsBRA sh (String (er_ToRef req))) completion) = None"
  using EdgesTo_eq[OF assms(1,2), of IsBRA] assms(3) by (auto split: option.splits)

text \<open>
  C7. When \<open>EdgesTo\<close> succeeds, its answer holds exactly: an item for every raw edge whose
  source is not a permanode, as the index gave it; and the item of a permanode-sourced
  edge if and only if the described attributes of the source still hold the target ref
  in a blob-reference attribute. So a source whose referencing attribute was overwritten
  by a later claim is not reported.
\<close>

theorem edges_verified:
  assumes "index_EdgesTo (sh_index sh) (er_ToRef req) = Inr edges"
    and "schedulable edges completion"
    and "EdgesTo IsBRA completion sh req = Some (Inr res)"
  shows "set (EdgesTo_items res) =
           {\<lparr> ei_From = e_From e, ei_FromType = e_FromType e \<rparr> | e.
              e \<in> set edges \<and> e_FromType e \<noteq> ''permanode''}
           \<union> {\<lparr> ei_From = e_From e, ei_FromType = ''permanode'' \<rparr> | e.
              e \<in> set edges \<and> e_FromType e = ''permanode''
              \<and> stillReferences IsBRA sh (er_ToRef req) (e_From e)}"
proof -
  have ok: "firstError (map (verify IsBRA sh (String (er_ToRef req))) completion) = None"
    using EdgesTo_success[OF assms] .
  have "EdgesTo_items res =
          map edgeItem (filter (\<lambda>e. e_FromType e \<noteq> ''permanode'') edges)
          @ map (\<lambda>e. \<lparr> ei_From = e_From e, ei_FromType = ''permanode'' \<rparr>)
              (filter (\<lambda>e. stillReferences IsBRA sh (er_ToRef req) (e_From e)) completion)"
    using EdgesTo_no_error[OF assms(1,2) ok] assms(3) by auto
  then show ?thesis
    using schedulable_set[OF assms(2)] by (auto simp: edgeItem_def)
qed

text \<open>
  C3, as the code has it. When no verification fails, the edge list of \<open>EdgesTo\<close> is: the
  edges from sources that are not permanodes, in the order the index returned them,
  followed by the permanode edges that passed verification, in the order their
  verification tasks completed. It is not the order of the raw edges.
\<close>

theorem edges_order:
  assumes "index_EdgesTo (sh_index sh) (er_ToRef req) = Inr edges"
    and "schedulable edges completion"
    and "firstError (map (verify IsBRA sh (String (er_ToRef req))) completion) = None"
  shows "EdgesTo IsBRA completion sh req =
           Some (Inr \<lparr> es_ToRef = er_ToRef req,
                       EdgesTo_items =
                         map edgeItem (filter (\<lambda>e. e_FromType e \<noteq> ''permanode'') edges)
                         @ map (\<lambda>e. \<lparr> ei_From = e_From e, ei_FromType = ''permanode'' \<rparr>)
                             (filter (\<lambda>e. stillReferences IsBRA sh (er_ToRef req) (e_From e))
                                completion) \<rparr>)"
  using assms by (rule EdgesTo_no_error)

subsection \<open>\<open>EdgesTo\<close> on the example index\<close>

lemma index_reads_cong:
  assumes "ix_claims ix' = ix_claims ix" and "ix_meta ix' = ix_meta ix"
  shows "claimsOf ix' = claimsOf ix" "attrValues ix' = attrValues ix"
    "attrNames ix' = attrNames ix" "lastModTime ix' = lastModTime ix"
    "permanodes ix' = permanodes ix" "recentRows ix' = recentRows ix"
proof -
  show c: "claimsOf ix' = claimsOf ix" by (intro ext) (simp add: claimsOf_def assms)
  show "attrValues ix' = attrValues ix" by (intro ext) (simp add: attrValues_def c)
  show "attrNames ix' = attrNames ix" by (intro ext) (simp add: attrNames_def c)
  show l: "lastModTime ix' = lastModTime ix" by (intro ext) (simp add: lastModTime_def c)
  show p: "permanodes ix' = permanodes ix" by (simp add: permanodes_def assms)
  show "recentRows ix' = recentRows ix" by (intro ext) (simp add: recentRows_def c l p)
qed

lemma demo_edges:
  "index_EdgesTo demoIndex demoTarget =
     Inr [demoEdge demoP2 ''permanode'', demoEdge demoP1 ''permanode'', demoEdge demoFile ''file'']"
  by (simp add: index_EdgesTo_def demoIndex_def demoEdge_def)

lemma demo_String: "String demoTarget \<noteq> String demoOther" "String demoOther \<noteq> String demoTarget"
  by (simp_all add: String_def demoTarget_def demoOther_def)

lemma demo_verify:
  "verify demoIsBlobReferenceAttribute demoHandler (String demoTarget) (demoEdge demoP1 ''permanode'') =
     \<lparr> eoe_edge = Some \<lparr> ei_From = demoP1, ei_FromType = ''permanode'' \<rparr>, eoe_err = None \<rparr>"
  "verify demoIsBlobReferenceAttribute demoHandler (String demoTarget) (demoEdge demoP2 ''permanode'') =
     \<lparr> eoe_edge = None, eoe_err = None \<rparr>"
  by (simp_all add: verify_def DescribeSync_def demo_describeBlob demoEdge_def
      demoIsBlobReferenceAttribute_def demo_String)

lemma demo_stillReferences:
  "stillReferences demoIsBlobReferenceAttribute demoHandler demoTarget demoP1"
  "\<not> stillReferences demoIsBlobReferenceAttribute demoHandler demoTarget demoP2"
  by (simp_all add: stillReferences_def DescribeSync_def demo_describeBlob
      demoIsBlobReferenceAttribute_def demo_String)

lemma demo_schedulable:
  "schedulable [demoEdge demoP2 ''permanode'', demoEdge demoP1 ''permanode'', demoEdge demoFile ''file'']
     [demoEdge demoP2 ''permanode'', demoEdge demoP1 ''permanode'']"
  by (simp add: schedulable_def demoEdge_def)

lemma demo_EdgesTo:
  "EdgesTo demoIsBlobReferenceAttribute [demoEdge demoP2 ''permanode'', demoEdge demoP1 ''permanode'']
     demoHandler \<lparr> er_ToRef = demoTarget \<rparr> =
   Some (Inr \<lparr> es_ToRef = demoTarget,
               EdgesTo_items = [\<lparr> ei_From = demoFile, ei_FromType = ''file'' \<rparr>,
                                \<lparr> ei_From = demoP1, ei_FromType = ''permanode'' \<rparr>] \<rparr>)"
  by (simp add: EdgesTo_def demo_sh demo_edges demo_verify) (simp add: demoEdge_def)

text \<open>
  The index returns the edge from \<open>demoP1\<close> before the edge from the file; \<open>EdgesTo\<close>
  returns the file's item before the item of \<open>demoP1\<close>, even when the verification tasks
  complete in the order they were started.
\<close>

theorem edges_order_counterexample:
  "index_EdgesTo (sh_index demoHandler) demoTarget =
     Inr [demoEdge demoP2 ''permanode'', demoEdge demoP1 ''permanode'', demoEdge demoFile ''file'']
   \<and> EdgesTo demoIsBlobReferenceAttribute [demoEdge demoP2 ''permanode'', demoEdge demoP1 ''permanode'']
       demoHandler \<lparr> er_ToRef = demoTarget \<rparr> =
     Some (Inr \<lparr> es_ToRef = demoTarget,
                 EdgesTo_items = [\<lparr> ei_From = demoFile, ei_FromType = ''file'' \<rparr>,
                                  \<lparr> ei_From = demoP1, ei_FromType = ''permanode'' \<rparr>] \<rparr>)"
  using demo_edges demo_EdgesTo by (simp add: demo_sh)

theorem edges_order_witness:
  "index_EdgesTo (sh_index demoHandler) (er_ToRef \<lparr> er_ToRef = demoTarget \<rparr>) =
     Inr [demoEdge demoP2 ''permanode'', demoEdge demoP1 ''permanode'', demoEdge demoFile ''file'']
   \<and> schedulable [demoEdge demoP2 ''permanode'', demoEdge demoP1 ''permanode'', demoEdge demoFile ''file'']
       [demoEdge demoP1 ''permanode'', demoEdge demoP2 ''permanode'']
   \<and> EdgesTo demoIsBlobReferenceAttribute [demoEdge demoP1 ''permanode'', demoEdge demoP2 ''permanode'']
       demoHandler \<lparr> er_ToRef = demoTarget \<rparr> =
     Some (Inr \<lparr> es_ToRef = demoTarget,
                 EdgesTo_items = [\<lparr> ei_From = demoFile, ei_FromType = ''file'' \<rparr>,
                                  \<lparr> ei_From = demoP1, ei_FromType = ''permanode'' \<rparr>] \<rparr>)"
proof -
  have a: "index_EdgesTo (sh_index demoHandler) (er_ToRef \<lparr> er_ToRef = demoTarget \<rparr>) =
     Inr [demoEdge demoP2 ''permanode'', demoEdge demoP1 ''permanode'', demoEdge demoFile ''file'']"
    by (simp add: demo_sh demo_edges)
  have b: "schedulable [demoEdge demoP2 ''permanode'', demoEdge demoP1 ''permanode'', demoEdge demoFile ''file'']
       [demoEdge demoP1 ''permanode'', demoEdge demoP2 ''permanode'']"
    by (simp add: schedulable_def demoEdge_def)
  have c: "firstError (map (verify demoIsBlobReferenceAttribute demoHandler
              (String (er_ToRef \<lparr> er_ToRef = demoTarget \<rparr>)))
              [demoEdge demoP1 ''permanode'', demoEdge demoP2 ''permanode'']) = None"
    by (simp add: demo_verify)
  have d: "e_From (demoEdge demoP1 ''permanode'') = demoP1" "e_From (demoEdge demoP2 ''permanode'') = demoP2"
    "e_FromType (demoEdge demoP1 ''permanode'') = ''permanode''"
    "e_FromType (demoEdge demoP2 ''permanode'') = ''permanode''"
    "e_FromType (demoEdge demoFile ''file'') = ''file''"
    "edgeItem (demoEdge demoFile ''file'') = \<lparr> ei_From = demoFile, ei_FromType = ''file'' \<rparr>"
    by (simp_all add: demoEdge_def edgeItem_def)
  show ?thesis
    using edges_order[OF a b c] a b by (simp add: demo_stillReferences d)
qed

text \<open>
  On the example index: \<open>demoP2\<close> once had the target as its content and a later claim
  set another content, so the stale raw edge from \<open>demoP2\<close> is dropped.
\<close>

theorem edges_verified_witness:
  "index_EdgesTo (sh_index demoHandler) (er_ToRef \<lparr> er_ToRef = demoTarget \<rparr>) =
     Inr [demoEdge demoP2 ''permanode'', demoEdge demoP1 ''permanode'', demoEdge demoFile ''file'']
   \<and> schedulable [demoEdge demoP2 ''permanode'', demoEdge demoP1 ''permanode'', demoEdge demoFile ''file'']
       [demoEdge demoP2 ''permanode'', demoEdge demoP1 ''permanode'']
   \<and> EdgesTo demoIsBlobReferenceAttribute [demoEdge demoP2 ''permanode'', demoEdge demoP1 ''permanode'']
       demoHandler \<lparr> er_ToRef = demoTarget \<rparr> =
     Some (Inr \<lparr> es_ToRef = demoTarget,
                 EdgesTo_items = [\<lparr> ei_From = demoFile, ei_FromType = ''file'' \<rparr>,
                                  \<lparr> ei_From = demoP1, ei_FromType = ''permanode'' \<rparr>] \<rparr>)
   \<and> stillReferences demoIsBlobReferenceAttribute demoHandler demoTarget demoP1
   \<and> \<not> stillReferences demoIsBlobReferenceAttribute demoHandler demoTarget demoP2
   \<and> attrValues demoIndex demoOwner demoP2 ''camliContent'' = [String demoOther]
   \<and> set [\<lparr> ei_From = demoFile, ei_FromType = ''file'' \<rparr>,
           \<lparr> ei_From = demoP1, ei_FromType = ''permanode'' \<rparr>] =
       {\<lparr> ei_From = e_From e, ei_FromType = e_FromType e \<rparr> | e.
          e \<in> set [demoEdge demoP2 ''permanode'', demoEdge demoP1 ''permanode'', demoEdge demoFile ''file'']
          \<and> e_FromType e \<noteq> ''permanode''}
       \<union> {\<lparr> ei_From = e_From e, ei_FromType = ''permanode'' \<rparr> | e.
          e \<in> set [demoEdge demoP2 ''permanode'', demoEdge demoP1 ''permanode'', demoEdge demoFile ''file'']
          \<and> e_FromType e = ''permanode''
          \<and> stillReferences demoIsBlobReferenceAttribute demoHandler demoTarget (e_From e)}"
proof -
  have a: "index_EdgesTo (sh_index demoHandler) (er_ToRef \<lparr> er_ToRef = demoTarget \<rparr>) =
     Inr [demoEdge demoP2 ''permanode'', demoEdge demoP1 ''permanode'', demoEdge demoFile ''file'']"
    by (simp add: demo_sh demo_edges)
  show ?thesis
    using edges_verified[OF a demo_schedulable demo_EdgesTo] a demo_schedulable demo_EdgesTo
      demo_stillReferences demo_attrValues(4)
    by simp
qed


section \<open>Failures\<close>

lemma firstError_Some:
  assumes "e \<in> set resc" and "eoe_err e = Some x"
  shows "\<exists>err. firstError resc = Some err"
  using assms by (induction resc) (auto split: option.splits)

lemma firstError_mem:
  assumes "firstError resc = Some err"
  shows "\<exists>r\<in>set resc. eoe_err r = Some err"
  using assms by (induction resc) (auto split: option.splits)

lemma GetRecentPermanodes_scan_error:
  assumes "snd (recentScan sh req) = Some err"
  shows "GetRecentPermanodes sh req = Inl err"
  using assms
  by (cases "recentScan sh req") (auto simp: GetRecentPermanodes_def Let_def split: prod.splits)

lemma GetPermanodesWithAttr_scan_error:
  assumes "snd (withAttrScan sh req) = Some err"
  shows "GetPermanodesWithAttr sh req =
           Inl (case metaMapThumbs sh
                       (fst (withAttrLoop (fst (withAttrScan sh req)) (NewDescribeRequest sh) []))
                       (WithAttrRequest_thumbnailSize req) of
                  Inl derr \<Rightarrow> derr
                | Inr m \<Rightarrow> err)"
  using assms
  by (cases "withAttrScan sh req")
     (auto simp: GetPermanodesWithAttr_def Let_def split: prod.splits sum.splits)

lemma EdgesTo_verify_error:
  assumes "index_EdgesTo (sh_index sh) (er_ToRef req) = Inr edges"
    and "schedulable edges completion"
    and "e \<in> set completion"
    and "eoe_err (verify IsBRA sh (String (er_ToRef req)) e) = Some x"
  shows "\<exists>verr. firstError (map (verify IsBRA sh (String (er_ToRef req))) completion) = Some verr
               \<and> EdgesTo IsBRA completion sh req = Some (Inl verr)"
proof -
  have "verify IsBRA sh (String (er_ToRef req)) e \<in> set (map (verify IsBRA sh (String (er_ToRef req))) completion)"
    using assms(3) by simp
  from firstError_Some[OF this assms(4)] obtain verr where
    v: "firstError (map (verify IsBRA sh (String (er_ToRef req))) completion) = Some verr" by blast
  then show ?thesis using EdgesTo_eq[OF assms(1,2), of IsBRA] by simp
qed

subsection \<open>The failing example index\<close>

lemma demoBroken_sh:
  "sh_index demoBrokenHandler = demoIndex\<lparr> ix_scanFault := Some (1, Error ''scan failed''),
       ix_unreadable := [(demoP2, Error ''describe failed'')] \<rparr>"
  "sh_owner demoBrokenHandler = demoOwner" "sh_clock demoBrokenHandler = 100"
  by (simp_all add: demoBrokenHandler_def demoHandler_def)

lemmas demoBroken_reads =
  index_reads_cong[of "demoIndex\<lparr> ix_scanFault := Some (1, Error ''scan failed''),
       ix_unreadable := [(demoP2, Error ''describe failed'')] \<rparr>" demoIndex, simplified]

lemma demoBroken_recentScan:
  "recentScan demoBrokenHandler \<lparr> rr_N = 5, rr_Before = 0, rr_ThumbnailSize = 0 \<rparr> =
     ([\<lparr> rp_Permanode = demoP2, rp_Signer = demoOwner, rp_LastModTime = 50 \<rparr>],
      Some (Error ''scan failed''))"
  by (simp add: recentScan_def index_GetRecentPermanodes_def scan_def demoBroken_sh
      demoBroken_reads demo_recentRows demo_lastModTime IsZero_def RecentRequest_n_def
      sanitizeNumResults_eq)

lemma demoBroken_withAttrScan:
  "withAttrScan demoBrokenHandler demoTitleTwo = ([demoP2], Some (Error ''scan failed''))"
  by (simp add: withAttrScan_def index_SearchPermanodesWithAttr_def scan_def demoBroken_sh
      demoBroken_reads demo_recentRows demo_attrValues attrMatches_def Valid_def demoTitleTwo_def)

lemma demoBroken_describe:
  "describeBlob demoBrokenHandler demoP2 t = Inl (Error ''describe failed'')"
  by (simp add: describeBlob_def demoBroken_sh)

lemma demoBroken_withAttr:
  "GetPermanodesWithAttr demoBrokenHandler demoTitleTwo = Inl (Error ''describe failed'')"
  by (simp add: GetPermanodesWithAttr_def demoBroken_withAttrScan NewDescribeRequest_def
      Describe_def demoBroken_describe)

lemma demoBroken_recent:
  "GetRecentPermanodes demoBrokenHandler \<lparr> rr_N = 5, rr_Before = 0, rr_ThumbnailSize = 0 \<rparr> =
     Inl (Error ''scan failed'')"
  using GetRecentPermanodes_scan_error[of demoBrokenHandler
      "\<lparr> rr_N = 5, rr_Before = 0, rr_ThumbnailSize = 0 \<rparr>" "Error ''scan failed''"]
  by (simp add: demoBroken_recentScan)

text \<open>
  C8. On the failing example index every scan breaks after one row with the error
  "scan failed", and describing that row fails as well. \<open>GetRecentPermanodes\<close> returns the
  scan's error and no items, as the claim says. \<open>GetPermanodesWithAttr\<close>, whose scan ended
  with the same error, returns the error of describing the row instead of the scan's
  error: it reads the describe error before \<open>errch\<close>, where \<open>GetRecentPermanodes\<close> reads
  \<open>errch\<close> first.
\<close>

theorem by_attribute_scan_error_replaced:
  "snd (recentScan demoBrokenHandler \<lparr> rr_N = 5, rr_Before = 0, rr_ThumbnailSize = 0 \<rparr>) =
     Some (Error ''scan failed'')
   \<and> GetRecentPermanodes demoBrokenHandler \<lparr> rr_N = 5, rr_Before = 0, rr_ThumbnailSize = 0 \<rparr> =
       Inl (Error ''scan failed'')
   \<and> snd (withAttrScan demoBrokenHandler demoTitleTwo) = Some (Error ''scan failed'')
   \<and> GetPermanodesWithAttr demoBrokenHandler demoTitleTwo = Inl (Error ''describe failed'')"
  by (simp add: demoBroken_recentScan demoBroken_recent demoBroken_withAttrScan demoBroken_withAttr)

lemma demoBroken_edges:
  "index_EdgesTo (sh_index demoBrokenHandler) demoTarget =
     Inr [demoEdge demoP2 ''permanode'', demoEdge demoP1 ''permanode'', demoEdge demoFile ''file'']"
  by (simp add: index_EdgesTo_def demoBroken_sh) (simp add: demoIndex_def demoEdge_def)

lemma demoBroken_verify:
  "verify demoIsBlobReferenceAttribute demoBrokenHandler (String demoTarget) (demoEdge demoP2 ''permanode'') =
     \<lparr> eoe_edge = None, eoe_err = Some (Error ''describe failed'') \<rparr>"
  by (simp add: verify_def DescribeSync_def demoBroken_describe demoEdge_def)

section \<open>Properties of named aliases\<close>

subsection \<open>The latest claim of an attribute\<close>









subsection \<open>The permanodes that carry a name\<close>








subsection \<open>What \<open>GetNamed\<close> returns\<close>










subsection \<open>What the writes of \<open>SetNamed\<close> leave behind\<close>

















subsection \<open>\<open>SetNamed\<close> returns\<close>






subsection \<open>Validation comes first\<close>

text \<open>
  A substitute that the parser of its form rejects is rejected by \<open>evalSearchInput\<close>
  with the parser's error.
\<close>

lemma evalSearchInput_parse_error:
  assumes "inp \<noteq> []"
    and "if HasPrefix inp ''{'' \<and> HasSuffix inp ''}''
         then decodeConstraint ps inp = Inl err else parseExpression ps inp = Inl err"
  shows "evalSearchInput ps inp = Inl err"
  using assms by (simp add: evalSearchInput_def split: if_splits)

text \<open>
  C2. When the substitute of a \<open>SetNamed\<close> request does not pass \<open>evalSearchInput\<close>
  (it is empty, or it does not parse as a query expression or as a constraint document),
  \<open>SetNamed\<close> returns that error and leaves the handler as it found it: storage, index,
  clock and entropy are untouched, so no content blob, permanode or claim was written.
\<close>

theorem invalid_substitute_no_write:
  assumes "evalSearchInput ps (sn_Substitute r) = Inl err"
  shows "SetNamed ps sh r = (sh, Inl err)"
  using assms by (simp add: SetNamed_def)

subsection \<open>Round trip\<close>


subsection \<open>Aliases on the example index\<close>

lemma demo_evalSearchInput:
  "evalSearchInput demoParsers ''bar'' = Inl (Error ''expected a predicate, found a literal'')"
  "evalSearchInput demoParsers ''is:pano'' = Inr (OtherConstraint ''is:pano'')"
  "evalSearchInput demoParsers ''is:image'' = Inr (OtherConstraint ''is:image'')"
  by (simp_all add: evalSearchInput_def demoParsers_def HasPrefix_def HasSuffix_def)



theorem invalid_substitute_no_write_witness:
  "evalSearchInput demoParsers (sn_Substitute \<lparr> sn_Named = ''foo'', sn_Substitute = ''bar'' \<rparr>)
     = Inl (Error ''expected a predicate, found a literal'')
   \<and> SetNamed demoParsers demoHandler \<lparr> sn_Named = ''foo'', sn_Substitute = ''bar'' \<rparr>
     = (demoHandler, Inl (Error ''expected a predicate, found a literal''))"
  using invalid_substitute_no_write[of demoParsers "\<lparr> sn_Named = ''foo'', sn_Substitute = ''bar'' \<rparr>"
      "Error ''expected a predicate, found a literal''" demoHandler]
  by (simp add: demo_evalSearchInput)




text \<open>
  On the index \<open>demoFutureIndex\<close> the alias \<open>foo\<close> has a content claim dated 200, after the
  handler's clock (100): claims carry the date their signer gave them. \<open>SetNamed\<close> accepts
  the substitute \<open>is:pano\<close> and reuses the permanode; \<open>GetNamed\<close> then still returns the
  old text, because the new content claim is not the latest by date.
\<close>

lemma demoFuture_GetNamed:
  "GetNamed demoFutureHandler \<lparr> gn_Named = ''foo'' \<rparr> =
     Inr \<lparr> gr_Named = ''foo'', gr_Substitute = ''is:old'', gr_PermaRef = demoP1,
           gr_SubstRef = Ref ''is:old'' \<rparr>"
  by (simp add: GetNamed_def Query_def matchingPermanodes_def permanodes_def attrValues_def
      claimsOf_def demoFutureHandler_def demoFutureIndex_def demoHandler_def demoIndex_def
      demoClaim_def demoOwner_def demoP1_def applyClaim_def describeBlob_def attrNames_def
      Get_def Parse_def String_def Fetch_def ReadAll_def)



end
